theory Spec2Isabelle
  imports Main
begin

section \<open>The page script of CalonPelanggan (script.js) as state transformers\<close>

text \<open>
  script.js is event-driven browser code: a handful of global variables, the DOM, the two
  web storages, and calls into three collaborators (the gapi client, Google Identity
  Services and the page's \<open>googleSheetsIntegration\<close> object).  Each handler is modelled as a
  function from \<open>world\<close> to \<open>world\<close>.  The calls a handler makes to the collaborators are
  appended, in program order, to the \<open>trace\<close> of the world, so that "is invoked", "exactly
  one request" and "no remote call" are statements about that list.

  Conventions of the embedding:
  \<^item> an \<open>await\<close>ed promise takes its outcome (\<open>Resolves\<close> or \<open>Rejects\<close>) as a parameter
    of the handler;
  \<^item> what the engine raises is a branch of the model: dereferencing an element that
    \<open>getElementById\<close> did not find, reaching into \<open>gapi.client\<close> or \<open>gapi.client.sheets\<close>
    while it is undefined, and reading the variable \<open>googleSheetsIntegration\<close> while it is
    not declared.  The error goes to the enclosing \<open>catch\<close>, and what the \<open>try\<close> block had
    done by then stays done.  The text of engine-raised errors is V8's, and nothing proved
    below depends on it;
  \<^item> a library is loaded where the script runs as its load callback: \<open>gapiLoaded\<close> calls
    \<open>gapi.load\<close> and \<open>gisLoaded\<close> calls \<open>google.accounts.id.initialize\<close>, and the gating
    check reaches \<open>renderButton\<close> only once \<open>gisLoaded\<close> has set its flag.
    \<open>handleSignoutClick\<close> tests for the identity library itself, and so does the model;
  \<^item> \<open>CONFIG\<close> is declared in config.js, outside this file; it is a field of the world,
    an object whose string fields may be empty (the falsy case the script tests for);
  \<^item> strings are sequences of bytes, a character outside ASCII being its UTF-8 bytes;
  \<^item> a row number is an integer as long as it is a safe integer of JavaScript (at most
    \<open>2^53 - 1\<close> in absolute value).  Beyond that the engine rounds, and the model does not
    follow it: a handler that would compute with or print such a number has no result
    in the model (\<open>None\<close>);
  \<^item> \<open>ErrorHandler.log\<close> prefixes an ISO timestamp; the prefix is left out of the trace,
    and so are the two emoji in the edit handler's console messages.
\<close>

subsection \<open>Data\<close>

datatype error = Error string | TypeError string | ReferenceError string

fun message :: "error \<Rightarrow> string" where
  "message (Error m) = m"
| "message (TypeError m) = m"
| "message (ReferenceError m) = m"

fun toString :: "error \<Rightarrow> string" where
  "toString (Error m) = ''Error: '' @ m"
| "toString (TypeError m) = ''TypeError: '' @ m"
| "toString (ReferenceError m) = ''ReferenceError: '' @ m"

text \<open>
  How far the gapi library has come: \<open>gapi.client\<close> is undefined (or \<open>gapi\<close> itself is); the
  client is there but the Sheets API is not; \<open>gapi.client.sheets\<close> is defined.
\<close>

datatype gapi_client = ClientUndefined | ClientLoaded | ClientWithSheets

text \<open>A global variable of another script: not declared, declared and undefined, or holding a value.\<close>

datatype 'a binding = Undeclared | Undefined | Defined 'a

datatype 'a outcome = Resolves 'a | Rejects error

datatype callback =
  InitializeGapiClient | SafeRefreshData | InitializeGoogleSheetsIntegration | SetupRefreshDataOverride

datatype token = AccessToken string | TokenString string

record dimension_range =
  sheetId :: int
  dimension :: string
  startIndex :: int
  endIndex :: int

datatype request = DeleteDimension dimension_range

datatype event =
    Console string string
  | GapiLoad
  | GapiClientInit string string
  | IdInitialize string
  | RenderButton string
  | DisableAutoSelect
  | IntegrationInit
  | RefreshData
  | SetTimeout callback nat
  | FormReset string
  | ValuesGet string string
  | ValuesUpdate string string string "string list list"
  | BatchUpdate string "request list"

record element =
  display :: string
  innerHTML :: string
  fieldValue :: string
  disabled :: bool
  classList :: "string list"

record config =
  API_KEY :: string
  SCOPES :: string
  CLIENT_ID :: string
  SPREADSHEET_ID :: string
  DATA_RANGE :: string

record integration =
  refreshData :: bool
  isInitialized :: bool

record credential_response =
  credential :: "string option"

record world =
  gapiInited :: bool
  gisLoadedFlag :: bool
  currentIdToken :: "string option"
  initializationAttempts :: nat
  CONFIG :: config
  document :: "string \<rightharpoonup> element"
  sessionStorage :: "string \<rightharpoonup> string"
  localStorage :: "string \<rightharpoonup> string"
  gapi :: gapi_client
  gapi_client_token :: "token option"
  google_accounts_id :: bool
  googleSheetsIntegration :: "integration binding"
  timers :: "(callback \<times> nat) list"
  trace :: "event list"

definition MAX_INITIALIZATION_ATTEMPTS :: nat where
  "MAX_INITIALIZATION_ATTEMPTS = 3"

definition gapi_client_defined :: "world \<Rightarrow> bool" where
  "gapi_client_defined s \<longleftrightarrow> gapi s = ClientLoaded \<or> gapi s = ClientWithSheets"

definition gapi_client_sheets :: "world \<Rightarrow> bool" where
  "gapi_client_sheets s \<longleftrightarrow> gapi s = ClientWithSheets"

text \<open>The values of the globals when the script has just been loaded (lines 4 to 8).\<close>

definition script_loaded :: "world \<Rightarrow> bool" where
  "script_loaded s \<longleftrightarrow>
     gapiInited s = False \<and> gisLoadedFlag s = False \<and> currentIdToken s = None \<and>
     initializationAttempts s = 0 \<and> timers s = [] \<and> trace s = []"

subsection \<open>Numbers and strings\<close>

definition digit_char :: "nat \<Rightarrow> char" where
  "digit_char d = ''0123456789'' ! (d mod 10)"

fun show_nat :: "nat \<Rightarrow> string" where
  "show_nat n = (if n < 10 then [digit_char n] else show_nat (n div 10) @ [digit_char (n mod 10)])"

declare show_nat.simps [simp del]

definition show_int :: "int \<Rightarrow> string" where
  "show_int i = (if i < 0 then ''-'' @ show_nat (nat (- i)) else show_nat (nat i))"

text \<open>
  The numbers of the script: NaN, a safe integer, or a number beyond the safe integers,
  which the model does not follow.  \<open>add\<close> is \<open>+\<close> and \<open>-\<close> with an integer literal;
  \<open>show_number\<close> is a number inside a template literal.
\<close>

datatype number = NaN | Integer int | Beyond

definition MAX_SAFE_INTEGER :: int where
  "MAX_SAFE_INTEGER = 2 ^ 53 - 1"

definition to_number :: "int \<Rightarrow> number" where
  "to_number n = (if - MAX_SAFE_INTEGER \<le> n \<and> n \<le> MAX_SAFE_INTEGER then Integer n else Beyond)"

definition add :: "number \<Rightarrow> int \<Rightarrow> number" where
  "add x k = (case x of NaN \<Rightarrow> NaN | Integer n \<Rightarrow> to_number (n + k) | Beyond \<Rightarrow> Beyond)"

definition show_number :: "number \<Rightarrow> string option" where
  "show_number x = (case x of NaN \<Rightarrow> Some ''NaN'' | Integer i \<Rightarrow> Some (show_int i) | Beyond \<Rightarrow> None)"

definition show_bool :: "bool \<Rightarrow> string" where
  "show_bool b = (if b then ''true'' else ''false'')"

text \<open>
  \<open>parseInt(string)\<close> with no radix: leading white space is skipped, a sign is read, a
  \<open>0x\<close> prefix selects radix 16, and the longest prefix of digits is the value; no digit
  at all is NaN.

  White space is what the language calls WhiteSpace and LineTerminator: TAB, LF, VT, FF,
  CR, SPACE, U+00A0, U+1680, U+2000 to U+200A, U+2028, U+2029, U+202F, U+205F, U+3000 and
  U+FEFF, here in UTF-8.
\<close>

definition white_space :: "string list" where
  "white_space =
     [[CHR 0x09], [CHR 0x0A], [CHR 0x0B], [CHR 0x0C], [CHR 0x0D], [CHR 0x20],
      [CHR 0xC2, CHR 0xA0],
      [CHR 0xE1, CHR 0x9A, CHR 0x80],
      [CHR 0xE2, CHR 0x80, CHR 0x80], [CHR 0xE2, CHR 0x80, CHR 0x81], [CHR 0xE2, CHR 0x80, CHR 0x82],
      [CHR 0xE2, CHR 0x80, CHR 0x83], [CHR 0xE2, CHR 0x80, CHR 0x84], [CHR 0xE2, CHR 0x80, CHR 0x85],
      [CHR 0xE2, CHR 0x80, CHR 0x86], [CHR 0xE2, CHR 0x80, CHR 0x87], [CHR 0xE2, CHR 0x80, CHR 0x88],
      [CHR 0xE2, CHR 0x80, CHR 0x89], [CHR 0xE2, CHR 0x80, CHR 0x8A],
      [CHR 0xE2, CHR 0x80, CHR 0xA8], [CHR 0xE2, CHR 0x80, CHR 0xA9], [CHR 0xE2, CHR 0x80, CHR 0xAF],
      [CHR 0xE2, CHR 0x81, CHR 0x9F],
      [CHR 0xE3, CHR 0x80, CHR 0x80],
      [CHR 0xEF, CHR 0xBB, CHR 0xBF]]"

text \<open>The number of bytes of the white space character a string starts with; 0 when it starts with none.\<close>

definition leading_white_space :: "string \<Rightarrow> nat" where
  "leading_white_space str =
     (case find (\<lambda>w. take (length w) str = w) white_space of Some w \<Rightarrow> length w | None \<Rightarrow> 0)"

function skip_white_space :: "string \<Rightarrow> string" where
  "skip_white_space str =
     (if leading_white_space str = 0 then str
      else skip_white_space (drop (leading_white_space str) str))"
  by pat_completeness auto
termination
proof (relation "measure length")
  show "wf (measure length)" by simp
next
  fix str :: string
  assume "leading_white_space str \<noteq> 0"
  then obtain w where w: "find (\<lambda>w. take (length w) str = w) white_space = Some w" "length w \<noteq> 0"
    by (auto simp add: leading_white_space_def split: option.splits)
  then have "take (length w) str = w"
    by (auto simp add: find_Some_iff)
  with w(2) have "str \<noteq> []"
    by auto
  with \<open>leading_white_space str \<noteq> 0\<close> show "(drop (leading_white_space str) str, str) \<in> measure length"
    by simp
qed

declare skip_white_space.simps [simp del]

definition digit_value :: "nat \<Rightarrow> char \<Rightarrow> nat option" where
  "digit_value radix c =
     (let n = of_char c :: nat;
          v = (if 48 \<le> n \<and> n \<le> 57 then Some (n - 48)
               else if 97 \<le> n \<and> n \<le> 122 then Some (n - 87)
               else if 65 \<le> n \<and> n \<le> 90 then Some (n - 55)
               else None)
      in case v of None \<Rightarrow> None | Some d \<Rightarrow> if d < radix then Some d else None)"

fun parse_digits :: "nat \<Rightarrow> string \<Rightarrow> nat option \<Rightarrow> nat option" where
  "parse_digits radix [] acc = acc"
| "parse_digits radix (c # cs) acc =
     (case digit_value radix c of
        None \<Rightarrow> acc
      | Some d \<Rightarrow> parse_digits radix cs (Some ((case acc of None \<Rightarrow> 0 | Some a \<Rightarrow> a) * radix + d)))"

definition parseInt :: "string \<Rightarrow> number" where
  "parseInt str =
     (let s0 = skip_white_space str;
          negative = (case s0 of c # _ \<Rightarrow> c = CHR ''-'' | [] \<Rightarrow> False);
          s1 = (case s0 of c # cs \<Rightarrow> if c = CHR ''+'' \<or> c = CHR ''-'' then cs else s0 | [] \<Rightarrow> s0);
          hex = (take 2 s1 = ''0x'' \<or> take 2 s1 = ''0X'');
          r = (if hex then parse_digits 16 (drop 2 s1) None else parse_digits 10 s1 None)
      in case r of None \<Rightarrow> NaN | Some n \<Rightarrow> to_number (if negative then - int n else int n))"

text \<open>\<open>CONFIG.DATA_RANGE.split('!')[0].replace(/'/g, "")\<close>\<close>

definition sheet_name :: "string \<Rightarrow> string" where
  "sheet_name data_range = filter (\<lambda>c. c \<noteq> CHR 0x27) (takeWhile (\<lambda>c. c \<noteq> CHR ''!'') data_range)"

text \<open>A value is falsy when it is undefined, null or the empty string.\<close>

definition truthy :: "string option \<Rightarrow> bool" where
  "truthy v = (case v of None \<Rightarrow> False | Some x \<Rightarrow> x \<noteq> [])"

subsection \<open>Effects\<close>

definition emit :: "event \<Rightarrow> world \<Rightarrow> world" where
  "emit e s = s\<lparr>trace := trace s @ [e]\<rparr>"

definition console_log :: "string \<Rightarrow> world \<Rightarrow> world" where
  "console_log m = emit (Console ''log'' m)"

definition setTimeout :: "callback \<Rightarrow> nat \<Rightarrow> world \<Rightarrow> world" where
  "setTimeout cb delay s = emit (SetTimeout cb delay) (s\<lparr>timers := timers s @ [(cb, delay)]\<rparr>)"

definition getElementById :: "world \<Rightarrow> string \<Rightarrow> element option" where
  "getElementById s i = document s i"

definition setElement :: "string \<Rightarrow> element \<Rightarrow> world \<Rightarrow> world" where
  "setElement i el s = s\<lparr>document := (document s)(i \<mapsto> el)\<rparr>"

definition null_property :: "string \<Rightarrow> error" where
  "null_property p = TypeError (''Cannot read properties of null (reading '' @ [CHR 0x27] @ p @ [CHR 0x27] @ '')'')"

text \<open>What reaching into \<open>gapi.client\<close> raises while it is undefined.\<close>

definition undefined_property :: "string \<Rightarrow> error" where
  "undefined_property p =
     TypeError (''Cannot read properties of undefined (reading '' @ [CHR 0x27] @ p @ [CHR 0x27] @ '')'')"

subsection \<open>ErrorHandler (lines 11 to 37)\<close>

definition ErrorHandler_log :: "string \<Rightarrow> string \<Rightarrow> world \<Rightarrow> world" where
  "ErrorHandler_log m level = emit (Console level m)"

definition banner :: "string \<Rightarrow> string" where
  \<open>banner m =
     ''\<newline>        <div class="alert alert-danger" style="margin: 20px; padding: 15px; border-radius: 5px; background: #f8d7da; color: #721c24; border: 1px solid #f5c6cb;">'' @
     ''\<newline>          <i class="fas fa-exclamation-triangle"></i> '' @ m @
     ''\<newline>          <button onclick="this.parentElement.parentElement.style.display='none'" '' @
     ''\<newline>                  style="float: right; background: none; border: none; font-size: 20px; cursor: pointer;">'' @
     ''\<newline>            &times;'' @
     ''\<newline>          </button>'' @
     ''\<newline>        </div>'' @
     ''\<newline>      ''\<close>

definition showUserError :: "string \<Rightarrow> world \<Rightarrow> world" where
  "showUserError m s =
     (case getElementById s ''errorDisplay'' of
        Some errorDisplay \<Rightarrow>
          setElement ''errorDisplay'' (errorDisplay\<lparr>innerHTML := banner m, display := ''block''\<rparr>) s
      | None \<Rightarrow> s)"

definition handleError :: "error \<Rightarrow> string \<Rightarrow> world \<Rightarrow> world" where
  "handleError err ctxt s =
     showUserError (''Terjadi kesalahan: '' @ message err)
       (ErrorHandler_log (''Error in '' @ ctxt @ '': '' @ message err) ''error'' s)"

subsection \<open>The view transition (lines 166 to 211)\<close>

text \<open>
  The body is one \<open>try\<close> block.  Two of its statements can raise: \<open>gapi.client.setToken\<close>
  (lines 186 and 205) while \<open>gapi.client\<close> is undefined, and the read of
  \<open>googleSheetsIntegration\<close> (line 193) while that variable is not declared.  The \<open>catch\<close>
  reports the error; the statements after the one that raised are not run.
\<close>

definition updateSigninStatus :: "bool \<Rightarrow> world \<Rightarrow> world" where
  "updateSigninStatus isSignedIn s =
     (let s1 = ErrorHandler_log (''Updating sign-in status: '' @ show_bool isSignedIn) ''info'' s in
      case (getElementById s1 ''sign-in-container'', getElementById s1 ''main-content'',
            getElementById s1 ''sign-out-button'') of
        (Some loginContainer, Some mainContent, Some signOutButton) \<Rightarrow>
          if isSignedIn then
            (let s2 = setElement ''sign-out-button'' (signOutButton\<lparr>display := ''block''\<rparr>)
                        (setElement ''main-content'' (mainContent\<lparr>display := ''block''\<rparr>)
                          (setElement ''sign-in-container'' (loginContainer\<lparr>display := ''none''\<rparr>) s1))
             in if truthy (currentIdToken s2) \<and> \<not> gapi_client_defined s2 then
                  handleError (undefined_property ''setToken'') ''updateSigninStatus'' s2
                else
                  (let s3 = (case currentIdToken s2 of
                               Some t \<Rightarrow>
                                 if t \<noteq> [] then
                                   ErrorHandler_log ''GAPI client token set.'' ''info''
                                     (s2\<lparr>gapi_client_token := Some (AccessToken t)\<rparr>)
                                 else s2
                             | None \<Rightarrow> s2)
                   in case googleSheetsIntegration s3 of
                        Undeclared \<Rightarrow>
                          handleError (ReferenceError ''googleSheetsIntegration is not defined'')
                            ''updateSigninStatus'' s3
                      | Undefined \<Rightarrow>
                          s3\<lparr>sessionStorage := (sessionStorage s3)(''isLoggedIn'' \<mapsto> ''true'')\<rparr>
                      | Defined _ \<Rightarrow>
                          (let s4 = emit IntegrationInit s3
                           in s4\<lparr>sessionStorage := (sessionStorage s4)(''isLoggedIn'' \<mapsto> ''true'')\<rparr>)))
          else
            (let s2 = setElement ''sign-out-button'' (signOutButton\<lparr>display := ''none''\<rparr>)
                        (setElement ''main-content'' (mainContent\<lparr>display := ''none''\<rparr>)
                          (setElement ''sign-in-container'' (loginContainer\<lparr>display := ''block''\<rparr>) s1))
             in if gapi_client_defined s2 then
                  ErrorHandler_log ''GAPI client token cleared.'' ''info''
                    (s2\<lparr>gapi_client_token := Some (TokenString [])\<rparr>)
                else handleError (undefined_property ''setToken'') ''updateSigninStatus'' s2)
      | _ \<Rightarrow> ErrorHandler_log ''Required DOM elements not found'' ''info'' s1)"

text \<open>
  \<open>googleSheetsIntegration.init()\<close> returns a promise; when it is rejected, the
  \<open>.catch\<close> callback runs in a later turn of the event loop.
\<close>

definition integration_init_rejected :: "error \<Rightarrow> world \<Rightarrow> world" where
  "integration_init_rejected err = handleError err ''googleSheetsIntegration.init''"

subsection \<open>The initialization sequencer (lines 40 to 145)\<close>

definition maybeRenderSignInButton :: "world \<Rightarrow> world" where
  "maybeRenderSignInButton s =
     (let s1 = console_log ''maybeRenderSignInButton called'' s in
      if gapiInited s1 \<and> gisLoadedFlag s1 then
        (let s2 = console_log ''gapiInited and gisLoadedFlag are true, rendering button'' s1 in
         case getElementById s2 ''g_id_onload'' of
           Some signInButtonContainer \<Rightarrow>
             updateSigninStatus False
               (emit (RenderButton ''g_id_onload'') (console_log ''signInButtonContainer found'' s2))
         | None \<Rightarrow> console_log ''signInButtonContainer not found'' s2)
      else console_log ''gapiInited or gisLoadedFlag is false'' s1)"

definition gapiLoaded :: "world \<Rightarrow> world" where
  "gapiLoaded s =
     emit GapiLoad
       (ErrorHandler_log ''gapiLoaded: Google API client library loaded.'' ''info''
         (console_log ''gapiLoaded called'' s))"

definition initializeGapiClient_catch :: "error \<Rightarrow> world \<Rightarrow> world" where
  "initializeGapiClient_catch err s =
     (let s1 = handleError err ''initializeGapiClient'' s;
          s2 = s1\<lparr>initializationAttempts := initializationAttempts s1 + 1\<rparr>
      in if initializationAttempts s2 < MAX_INITIALIZATION_ATTEMPTS then
           setTimeout InitializeGapiClient (2000 * initializationAttempts s2)
             (ErrorHandler_log
                (''Retrying initialization... ('' @ show_nat (initializationAttempts s2) @ ''/'' @
                 show_nat MAX_INITIALIZATION_ATTEMPTS @ '')'') ''info'' s2)
         else s2)"

text \<open>
  The body of \<open>initializeGapiClient\<close> up to its \<open>await\<close>: the second component tells
  whether the function is suspended on \<open>gapi.client.init\<close> (\<open>True\<close>) or has already run its
  \<open>catch\<close> block (\<open>False\<close>).
\<close>

definition initializeGapiClient_begin :: "world \<Rightarrow> world \<times> bool" where
  "initializeGapiClient_begin s =
     (let s1 = ErrorHandler_log ''initializeGapiClient: Initializing gapi.client...'' ''info''
                 (console_log ''initializeGapiClient called'' s)
      in if API_KEY (CONFIG s1) = [] \<or> SCOPES (CONFIG s1) = [] then
           (initializeGapiClient_catch (Error ''Configuration missing. Please check config.js'') s1, False)
         else if \<not> gapi_client_defined s1 then
           (initializeGapiClient_catch (undefined_property ''init'') s1, False)
         else (emit (GapiClientInit (API_KEY (CONFIG s1)) (SCOPES (CONFIG s1))) s1, True))"

definition initializeGapiClient_resume :: "unit outcome \<Rightarrow> world \<Rightarrow> world" where
  "initializeGapiClient_resume result s =
     (case result of
        Resolves _ \<Rightarrow>
          maybeRenderSignInButton
            (ErrorHandler_log ''GAPI client initialized successfully'' ''info'' (s\<lparr>gapiInited := True\<rparr>))
      | Rejects err \<Rightarrow> initializeGapiClient_catch err s)"

definition initializeGapiClient :: "unit outcome \<Rightarrow> world \<Rightarrow> world" where
  "initializeGapiClient result s =
     (case initializeGapiClient_begin s of
        (s1, True) \<Rightarrow> initializeGapiClient_resume result s1
      | (s1, False) \<Rightarrow> s1)"

definition gisLoaded :: "world \<Rightarrow> world" where
  "gisLoaded s =
     (let s1 = ErrorHandler_log ''gisLoaded: Google Identity Services loaded.'' ''info''
                 (console_log ''gisLoaded called'' s)
      in if CLIENT_ID (CONFIG s1) = [] then
           handleError (Error ''CLIENT_ID missing in configuration'') ''gisLoaded'' s1
         else
           maybeRenderSignInButton
             (ErrorHandler_log ''GIS initialized successfully'' ''info''
               ((emit (IdInitialize (CLIENT_ID (CONFIG s1))) s1)\<lparr>gisLoadedFlag := True\<rparr>)))"

definition handleCredentialResponse :: "credential_response \<Rightarrow> world \<Rightarrow> world" where
  "handleCredentialResponse response s =
     (let s1 = ErrorHandler_log ''Credential response received'' ''info''
                 (console_log ''handleCredentialResponse called'' s)
      in if truthy (credential response) then
           ErrorHandler_log ''Login successful'' ''info''
             (updateSigninStatus True (s1\<lparr>currentIdToken := credential response\<rparr>))
         else
           updateSigninStatus False
             (handleError (Error ''No credential in response'') ''handleCredentialResponse'' s1))"

definition handleSignoutClick :: "world \<Rightarrow> world" where
  "handleSignoutClick s =
     (let s1 = console_log ''handleSignoutClick called'' s;
          s2 = (if google_accounts_id s1 then
                  emit DisableAutoSelect
                    (console_log ''google.accounts.id is defined. Attempting disableAutoSelect.'' s1)
                else console_log ''google.accounts.id is NOT defined. Skipping disableAutoSelect.'' s1);
          s3 = updateSigninStatus False (s2\<lparr>currentIdToken := None\<rparr>);
          s4 = s3\<lparr>sessionStorage := (sessionStorage s3)(''isLoggedIn'' := None)\<rparr>;
          s5 = s4\<lparr>localStorage := (localStorage s4)(''isLoggedIn'' := None)\<rparr>
      in ErrorHandler_log ''User signed out'' ''info'' s5)"

subsection \<open>Refreshing and the edit modal (lines 215 to 248)\<close>

definition safeRefreshData :: "world \<Rightarrow> world" where
  "safeRefreshData s =
     (let ready = (case googleSheetsIntegration s of Defined g \<Rightarrow> refreshData g | _ \<Rightarrow> False) in
      if ready then emit RefreshData s
      else setTimeout SafeRefreshData 500
             (emit (Console ''warn'' ''googleSheetsIntegration not ready, retrying...'') s))"

text \<open>
  The two polling functions (lines 535 to 546 and 719 to 731).  Once the integration object
  is there, \<open>setupRefreshDataOverride\<close> wraps its \<open>refreshData\<close> so that the drop-down lists
  are rebuilt after each refresh; that changes no state of the model.
\<close>

definition initializeGoogleSheetsIntegration :: "world \<Rightarrow> world" where
  "initializeGoogleSheetsIntegration s =
     (case googleSheetsIntegration s of
        Defined g \<Rightarrow>
          (let s1 = console_log ''googleSheetsIntegration loaded successfully'' s
           in if isInitialized g then safeRefreshData s1 else s1)
      | _ \<Rightarrow>
          setTimeout InitializeGoogleSheetsIntegration 1000
            (console_log ''Waiting for googleSheetsIntegration to load...'' s))"

definition setupRefreshDataOverride :: "world \<Rightarrow> world" where
  "setupRefreshDataOverride s =
     (let ready = (case googleSheetsIntegration s of Defined g \<Rightarrow> refreshData g | _ \<Rightarrow> False) in
      if ready then s else setTimeout SetupRefreshDataOverride 100 s)"

text \<open>The listener for uncaught errors (lines 470 to 477).\<close>

text \<open>\<open>String.prototype.includes\<close>\<close>

fun string_includes :: "string \<Rightarrow> string \<Rightarrow> bool" where
  "string_includes [] sub = (sub = [])"
| "string_includes (c # cs) sub = (take (length sub) (c # cs) = sub \<or> string_includes cs sub)"

definition window_error :: "string \<Rightarrow> world \<Rightarrow> world" where
  "window_error event_message s =
     (if string_includes event_message ''refreshData'' \<and>
         string_includes event_message ''undefined'' then
        emit (Console ''warn''
                ''Caught refreshData undefined error - this is expected during initialization'') s
      else handleError (Error event_message) ''Global Error'' s)"

definition closeEditModal :: "world \<Rightarrow> world" where
  "closeEditModal s =
     (case getElementById s ''editModal'' of
        Some editModal \<Rightarrow>
          (let s1 = setElement ''editModal''
                      (editModal\<lparr>display := ''none'', classList := removeAll ''show'' (classList editModal)\<rparr>) s;
               s2 = (case getElementById s1 ''editForm'' of
                       Some _ \<Rightarrow> emit (FormReset ''editForm'') s1
                     | None \<Rightarrow> s1)
           in case getElementById s2 ''errorDisplay'' of
                Some errorDisplay \<Rightarrow> setElement ''errorDisplay'' (errorDisplay\<lparr>display := ''none''\<rparr>) s2
              | None \<Rightarrow> s2)
      | None \<Rightarrow> s)"

subsection \<open>Page load (lines 251 to 278)\<close>

fun join :: "string \<Rightarrow> string list \<Rightarrow> string" where
  "join sep [] = []"
| "join sep [x] = x"
| "join sep (x # y # ys) = x @ sep @ join sep (y # ys)"

text \<open>
  The listener ends with \<open>initializeUIComponents()\<close>, which registers the listeners that
  dispatch to the handlers below and rebuilds the options of the drop-down lists
  \<open>assignedSales\<close> and \<open>editSales\<close> when the page has both.  That call is not part of
  \<open>DOMContentLoaded\<close> here: the listeners are steps of their own, and a change to the
  drop-down lists is a change of the DOM by the environment.
\<close>

definition DOMContentLoaded :: "world \<Rightarrow> world" where
  "DOMContentLoaded s =
     (let s1 = ErrorHandler_log ''DOM Content Loaded - Initializing application...'' ''info'' s;
          missingElements = filter (\<lambda>i. getElementById s1 i = None)
                              [''sign-in-container'', ''main-content'', ''errorDisplay'']
      in if length missingElements > 0 then
           ErrorHandler_log (''Missing elements: '' @ join '', '' missingElements) ''info'' s1
         else
           (let isLoggedIn = (sessionStorage s1 ''isLoggedIn'' = Some ''true'');
                s2 = ErrorHandler_log (''Login status: '' @ show_bool isLoggedIn) ''info'' s1
            in if isLoggedIn then updateSigninStatus True s2 else s2))"

subsection \<open>The edit form's submit listener (lines 422 to 462)\<close>

definition edit_field_ids :: "string list" where
  "edit_field_ids = [''editOdp'', ''editNama'', ''editAlamat'', ''editTelepon'', ''editSales'',
                     ''editVisit'', ''editKeterangan'', ''editStatus'']"

definition editForm_catch :: "error \<Rightarrow> world \<Rightarrow> world" where
  "editForm_catch err s =
     handleError err ''editForm.submit'' (emit (Console ''error'' (''Update row error: '' @ toString err)) s)"

text \<open>The eight \<open>.value\<close> reads that build the row; \<open>None\<close> when one of the fields is missing.\<close>

definition edit_values :: "world \<Rightarrow> string list option" where
  "edit_values s = those (map (\<lambda>i. map_option fieldValue (getElementById s i)) edit_field_ids)"

text \<open>What line 452 and line 509 raise while \<open>gapi.client.sheets\<close> is undefined.\<close>

definition sheets_error :: "world \<Rightarrow> error" where
  "sheets_error s = undefined_property (if gapi_client_defined s then ''spreadsheets'' else ''sheets'')"

text \<open>
  The request of line 452 and what follows it, for the numeral \<open>n\<close> of \<open>rowToUpdate\<close> and
  the row of values.
\<close>

definition editForm_update :: "string \<Rightarrow> string list \<Rightarrow> unit outcome \<Rightarrow> world \<Rightarrow> world" where
  "editForm_update n row result s =
     (let values = [row];
          sheetName = sheet_name (DATA_RANGE (CONFIG s));
          s1 = emit (ValuesUpdate (SPREADSHEET_ID (CONFIG s))
                       (sheetName @ ''!A'' @ n @ '':H'' @ n)
                       ''USER_ENTERED'' values) s
      in case result of
           Resolves _ \<Rightarrow>
             safeRefreshData
               (closeEditModal
                 (console_log ''Row updated successfully in Google Sheets'' s1))
         | Rejects err \<Rightarrow> editForm_catch err s1)"

text \<open>
  The request is built first (that cannot raise); the call of line 452 raises when
  \<open>gapi.client.sheets\<close> is undefined, and then nothing is sent.  The result is \<open>None\<close> when
  the row number is beyond the safe integers.
\<close>

definition editForm_submit :: "unit outcome \<Rightarrow> world \<Rightarrow> world option" where
  "editForm_submit result s =
     (case getElementById s ''editRowIndex'' of
        None \<Rightarrow> Some (editForm_catch (null_property ''value'') s)
      | Some editRowIndex \<Rightarrow>
          (let index = fieldValue editRowIndex;
               rowToUpdate = add (parseInt index) 2
           in case edit_values s of
                None \<Rightarrow> Some (editForm_catch (null_property ''value'') s)
              | Some row \<Rightarrow>
                  if \<not> gapi_client_sheets s then Some (editForm_catch (sheets_error s) s)
                  else
                    (case show_number rowToUpdate of
                       None \<Rightarrow> None
                     | Some n \<Rightarrow> Some (editForm_update n row result s))))"

subsection \<open>Deleting a row (lines 483 to 521)\<close>

definition deleteCustomerRow_catch :: "string \<Rightarrow> error \<Rightarrow> world \<Rightarrow> world" where
  "deleteCustomerRow_catch index err s =
     showUserError (''Gagal menghapus data: '' @ message err)
       (handleError err (''deleteCustomerRow for index '' @ index) s)"

text \<open>
  The body of \<open>deleteCustomerRow\<close> for the values of its numeric expressions: the numerals
  of \<open>rowIndex\<close> and of \<open>sheetRowIndex\<close>, and the numbers \<open>sheetRowIndex - 1\<close> and
  \<open>sheetRowIndex\<close>.  The call of line 509 raises when \<open>gapi.client.sheets\<close> is undefined,
  and then nothing is sent.
\<close>

definition deleteCustomerRow_body ::
  "string \<Rightarrow> string \<Rightarrow> int \<Rightarrow> int \<Rightarrow> unit outcome \<Rightarrow> world \<Rightarrow> world"
where
  "deleteCustomerRow_body index sheetRow start_row end_row result s =
     (let s1 = ErrorHandler_log (''Attempting to delete row at index: '' @ index) ''info'' s
      in if \<not> gapi_client_sheets s1 then deleteCustomerRow_catch index (sheets_error s1) s1
         else
           (let s2 = emit (BatchUpdate (SPREADSHEET_ID (CONFIG s1))
                             [DeleteDimension \<lparr>sheetId = 0, dimension = ''ROWS'',
                                               startIndex = start_row, endIndex = end_row\<rparr>]) s1
            in case result of
                 Resolves _ \<Rightarrow>
                   safeRefreshData
                     (showUserError ''Data pelanggan berhasil dihapus!''
                       (ErrorHandler_log
                          (''Row '' @ sheetRow @ '' deleted successfully from Google Sheets.'')
                          ''info'' s2))
               | Rejects err \<Rightarrow> deleteCustomerRow_catch index err s2))"

text \<open>
  \<open>rowIndex\<close> is a number that is an integer.  The result is \<open>None\<close> when \<open>rowIndex\<close> or
  \<open>rowIndex + 2\<close> is beyond the safe integers.
\<close>

definition deleteCustomerRow :: "int \<Rightarrow> unit outcome \<Rightarrow> world \<Rightarrow> world option" where
  "deleteCustomerRow rowIndex result s =
     (let sheetRowIndex = add (to_number rowIndex) 2
      in case (show_number (to_number rowIndex), show_number sheetRowIndex,
               add sheetRowIndex (- 1), sheetRowIndex) of
           (Some index, Some sheetRow, Integer start_row, Integer end_row) \<Rightarrow>
             Some (deleteCustomerRow_body index sheetRow start_row end_row result s)
         | _ \<Rightarrow> None)"

subsection \<open>Adding a customer (lines 612 to 715)\<close>

definition or_default :: "string option \<Rightarrow> string \<Rightarrow> string" where
  "or_default v d = (case v of Some x \<Rightarrow> if x \<noteq> [] then x else d | None \<Rightarrow> d)"

definition rowData :: "(string \<rightharpoonup> string) \<Rightarrow> string list list" where
  "rowData customerData =
     [[or_default (customerData ''odp_terdekat'') [],
       or_default (customerData ''nama'') [],
       or_default (customerData ''alamat'') [],
       or_default (customerData ''no_telepon'') [],
       or_default (customerData ''nama_sales'') [],
       or_default (customerData ''visit'') ''Not Visited'',
       or_default (customerData ''keterangan'') [],
       or_default (customerData ''status'') ''Baru'',
       or_default (customerData ''email'') [],
       or_default (customerData ''kelurahan'') [],
       or_default (customerData ''tanggal_visit'') [],
       or_default (customerData ''priority'') ''Normal'']]"

text \<open>The validation of line 625.\<close>

definition required_field_missing :: "(string \<rightharpoonup> string) \<Rightarrow> bool" where
  "required_field_missing customerData \<longleftrightarrow>
     \<not> truthy (customerData ''nama'') \<or> \<not> truthy (customerData ''no_telepon'') \<or>
     \<not> truthy (customerData ''alamat'') \<or> \<not> truthy (customerData ''odp_terdekat'') \<or>
     \<not> truthy (customerData ''nama_sales'')"

definition resetAddCustomerForm :: "world \<Rightarrow> world" where
  "resetAddCustomerForm s =
     (case getElementById s ''addCustomerForm'' of
        Some form \<Rightarrow> emit (FormReset ''addCustomerForm'') s
      | None \<Rightarrow> handleError (null_property ''querySelectorAll'') ''resetAddCustomerForm'' s)"

text \<open>
  The check of line 615 stands before the \<open>try\<close>: \<open>!gapiInited || !gapi.client.sheets\<close> reads
  \<open>gapi.client.sheets\<close> only when \<open>gapiInited\<close> is true, and raises there when \<open>gapi.client\<close>
  is undefined; the promise of the async function is then rejected.  The response of
  \<open>values.get\<close> is an array, of fewer than \<open>2^32\<close> rows.

  The \<open>finally\<close> block looks the save button up again and dereferences it unguarded: when the
  button is missing the TypeError leaves the async function, whose promise is rejected
  with it (the second component).
\<close>

definition addCustomer_finally :: "world \<Rightarrow> world \<times> error option" where
  \<open>addCustomer_finally s =
     (case getElementById s ''saveCustomer'' of
        Some saveBtn \<Rightarrow>
          (setElement ''saveCustomer''
             (saveBtn\<lparr>innerHTML := ''<i class="fas fa-save"></i> Simpan Calon Pelanggan'',
                      disabled := False\<rparr>) s, None)
      | None \<Rightarrow> (s, Some (TypeError ''Cannot set properties of null (setting 'innerHTML')'')))\<close>

definition addCustomer_catch :: "error \<Rightarrow> world \<Rightarrow> world \<times> error option" where
  "addCustomer_catch err s = addCustomer_finally (handleError err ''handleAddCustomerSubmit'' s)"

definition handleAddCustomerSubmit ::
  "(string \<rightharpoonup> string) \<Rightarrow> string list list option outcome \<Rightarrow> unit outcome \<Rightarrow> world \<Rightarrow> world \<times> error option"
where
  \<open>handleAddCustomerSubmit customerData getResult updateResult s =
     (if \<not> gapiInited s then
        (showUserError ''Google API client not initialized. Please try again.'' s, None)
      else if \<not> gapi_client_defined s then (s, Some (undefined_property ''sheets''))
      else if \<not> gapi_client_sheets s then
        (showUserError ''Google API client not initialized. Please try again.'' s, None)
      else if required_field_missing customerData then
        addCustomer_finally (showUserError ''Mohon lengkapi semua field yang wajib diisi'' s)
      else
        (case getElementById s ''saveCustomer'' of
           None \<Rightarrow> addCustomer_catch (null_property ''innerHTML'') s
         | Some saveBtn \<Rightarrow>
             (let s1 = setElement ''saveCustomer''
                         (saveBtn\<lparr>innerHTML := ''<i class="fas fa-spinner fa-spin"></i> Menyimpan...'',
                                  disabled := True\<rparr>) s;
                  sheetName = sheet_name (DATA_RANGE (CONFIG s1));
                  s2 = emit (ValuesGet (SPREADSHEET_ID (CONFIG s1)) (DATA_RANGE (CONFIG s1))) s1
              in case getResult of
                   Rejects err \<Rightarrow> addCustomer_catch err s2
                 | Resolves response_values \<Rightarrow>
                     (let values = (case response_values of Some v \<Rightarrow> v | None \<Rightarrow> []);
                          nextRow = int (length values) + 2;
                          s3 = emit (ValuesUpdate (SPREADSHEET_ID (CONFIG s2))
                                       (sheetName @ ''!A'' @ show_int nextRow @ '':L'' @ show_int nextRow)
                                       ''USER_ENTERED'' (rowData customerData)) s2
                      in case updateResult of
                           Rejects err \<Rightarrow> addCustomer_catch err s3
                         | Resolves _ \<Rightarrow>
                             (let s4 = resetAddCustomerForm
                                         (showUserError ''Calon pelanggan berhasil ditambahkan!'' s3);
                                  s5 = (case getElementById s4 ''add-customer-form-container'' of
                                          Some c \<Rightarrow>
                                            setElement ''add-customer-form-container''
                                              (c\<lparr>display := ''none''\<rparr>) s4
                                        | None \<Rightarrow> s4)
                              in addCustomer_finally (safeRefreshData s5))))))\<close>

text \<open>The \<open>unhandledrejection\<close> listener (lines 524 to 526) and the dispatch of a submit event.\<close>

definition unhandledrejection :: "error \<Rightarrow> world \<Rightarrow> world" where
  "unhandledrejection reason = handleError (Error (toString reason)) ''Unhandled Promise Rejection''"

definition addCustomerForm_submit ::
  "(string \<rightharpoonup> string) \<Rightarrow> string list list option outcome \<Rightarrow> unit outcome \<Rightarrow> world \<Rightarrow> world"
where
  "addCustomerForm_submit customerData getResult updateResult s =
     (case handleAddCustomerSubmit customerData getResult updateResult s of
        (s', None) \<Rightarrow> s'
      | (s', Some reason) \<Rightarrow> unhandledrejection reason s')"

subsection \<open>Observations on the trace\<close>

fun is_remote_call :: "event \<Rightarrow> bool" where
  "is_remote_call (ValuesGet _ _) = True"
| "is_remote_call (ValuesUpdate _ _ _ _) = True"
| "is_remote_call (BatchUpdate _ _) = True"
| "is_remote_call _ = False"

definition remote_calls :: "world \<Rightarrow> event list" where
  "remote_calls s = filter is_remote_call (trace s)"

fun is_renderButton :: "event \<Rightarrow> bool" where
  "is_renderButton (RenderButton _) = True"
| "is_renderButton _ = False"

definition renderButton_calls :: "world \<Rightarrow> nat" where
  "renderButton_calls s = length (filter is_renderButton (trace s))"

definition disableAutoSelect_calls :: "world \<Rightarrow> nat" where
  "disableAutoSelect_calls s = length (filter (\<lambda>e. e = DisableAutoSelect) (trace s))"

fun retry_delay :: "event \<Rightarrow> nat list" where
  "retry_delay (SetTimeout InitializeGapiClient d) = [d]"
| "retry_delay _ = []"

definition retry_delays :: "world \<Rightarrow> nat list" where
  "retry_delays s = concat (map retry_delay (trace s))"

definition required_elements_present :: "world \<Rightarrow> bool" where
  "required_elements_present s \<longleftrightarrow>
     document s ''sign-in-container'' \<noteq> None \<and> document s ''main-content'' \<noteq> None \<and>
     document s ''sign-out-button'' \<noteq> None"

definition display_of :: "world \<Rightarrow> string \<Rightarrow> string option" where
  "display_of s i = map_option display (document s i)"

subsection \<open>The retry timers of the initialization\<close>

text \<open>
  \<open>fire cb ts\<close> takes the oldest pending timer of callback \<open>cb\<close> out of the queue.
  \<open>run_initialization\<close> calls \<open>initializeGapiClient\<close> and, as long as a retry timer is
  pending afterwards, lets it expire and calls again; the \<open>k\<close>-th call gets the outcome
  \<open>results k\<close> of its \<open>gapi.client.init\<close> promise.
\<close>

fun fire :: "callback \<Rightarrow> (callback \<times> nat) list \<Rightarrow> (callback \<times> nat) list option" where
  "fire cb [] = None"
| "fire cb ((c, d) # ts) = (if c = cb then Some ts else map_option (Cons (c, d)) (fire cb ts))"

definition pending :: "callback \<Rightarrow> world \<Rightarrow> nat" where
  "pending cb s = length (filter (\<lambda>t. fst t = cb) (timers s))"

definition attempt_fails :: "world \<Rightarrow> unit outcome \<Rightarrow> bool" where
  "attempt_fails s result \<longleftrightarrow>
     API_KEY (CONFIG s) = [] \<or> SCOPES (CONFIG s) = [] \<or> \<not> gapi_client_defined s \<or>
     (case result of Rejects _ \<Rightarrow> True | Resolves _ \<Rightarrow> False)"

subsection \<open>A concrete page, for evaluating the handlers\<close>

definition blank :: element where
  "blank = \<lparr>display = [], innerHTML = [], fieldValue = [], disabled = False, classList = []\<rparr>"

definition example_config :: config where
  \<open>example_config =
     \<lparr>API_KEY = ''key'', SCOPES = ''https://www.googleapis.com/auth/spreadsheets'',
      CLIENT_ID = ''client'', SPREADSHEET_ID = ''sheet'', DATA_RANGE = '''Calon Pelanggan'!A2:L''\<rparr>\<close>

definition example_page :: world where
  "example_page =
     \<lparr>gapiInited = False, gisLoadedFlag = False, currentIdToken = None, initializationAttempts = 0,
      CONFIG = example_config,
      document = [''sign-in-container'' \<mapsto> blank, ''main-content'' \<mapsto> blank,
                  ''sign-out-button'' \<mapsto> blank, ''g_id_onload'' \<mapsto> blank,
                  ''errorDisplay'' \<mapsto> blank, ''saveCustomer'' \<mapsto> blank],
      sessionStorage = Map.empty, localStorage = Map.empty,
      gapi = ClientLoaded, gapi_client_token = None, google_accounts_id = True,
      googleSheetsIntegration = Undefined, timers = [], trace = []\<rparr>"

text \<open>
  On the example page both libraries are loaded, the Sheets API is not yet, and the
  integration object is declared and not yet assigned.  More pages: one without the
  sign-out control; that one with both readiness flags true; one revisited with the session
  flag still stored and the identity library not loaded yet; one with the flag in both
  storages; one restored from the stored flag on which both readiness flags have since become
  true; one with the API client ready; and that one with the edit form filled in.
\<close>

definition page_without_signout_button :: world where
  "page_without_signout_button =
     example_page\<lparr>document := (document example_page)(''sign-out-button'' := None)\<rparr>"

definition login_only_page :: world where
  "login_only_page = page_without_signout_button\<lparr>gapiInited := True, gisLoadedFlag := True\<rparr>"

definition returning_page :: world where
  "returning_page =
     example_page\<lparr>sessionStorage := [''isLoggedIn'' \<mapsto> ''true''], google_accounts_id := False\<rparr>"

definition both_flags_page :: world where
  "both_flags_page =
     example_page\<lparr>sessionStorage := [''isLoggedIn'' \<mapsto> ''true''],
                   localStorage := [''isLoggedIn'' \<mapsto> ''true'']\<rparr>"

definition restored_ready_page :: world where
  "restored_ready_page = (gisLoaded (DOMContentLoaded both_flags_page))\<lparr>gapiInited := True\<rparr>"

definition ready_page :: world where
  "ready_page = example_page\<lparr>gapiInited := True, gapi := ClientWithSheets\<rparr>"


subsection \<open>The states the page can be in\<close>

text \<open>
  The browser calls the handlers in any order and with any arguments; between two calls the
  user, the libraries and the other scripts of the page may change the DOM, the storages and
  the libraries' own state, but not the globals of this script.  A handler that awaits a
  promise is split at its \<open>await\<close> where the readiness flags are concerned
  (\<open>initializeGapiClient\<close>); the form handlers run as one step with the outcomes of their
  promises, and anything that interleaves with them is a step of its own.  A timer that
  expires leaves the queue, and its callback is one of the steps.  Where the edit or the
  delete handler has no result here (a row number beyond the safe integers), the step is the
  rest of that handler under any numerals and numbers, those of the engine among them.  The
  listeners that only show, hide or fill parts of the page are changes of the DOM.  The
  relation is larger than what a browser can produce (a continuation may run without its
  call), so what holds in every state of it holds in every state of the page.
\<close>

inductive reachable :: "world \<Rightarrow> bool" where
  script_start: "script_loaded s \<Longrightarrow> reachable s"
| environment:
    "reachable s \<Longrightarrow>
     reachable (s\<lparr>document := d, sessionStorage := ss, localStorage := ls, gapi := lib,
                  gapi_client_token := tok, google_accounts_id := gid, googleSheetsIntegration := gsi\<rparr>)"
| timer_expired: "reachable s \<Longrightarrow> fire cb (timers s) = Some ts \<Longrightarrow> reachable (s\<lparr>timers := ts\<rparr>)"
| gapi_loaded: "reachable s \<Longrightarrow> reachable (gapiLoaded s)"
| init_called: "reachable s \<Longrightarrow> reachable (fst (initializeGapiClient_begin s))"
| init_resumed: "reachable s \<Longrightarrow> reachable (initializeGapiClient_resume r s)"
| gis_loaded: "reachable s \<Longrightarrow> reachable (gisLoaded s)"
| credential_received: "reachable s \<Longrightarrow> reachable (handleCredentialResponse response s)"
| signout_clicked: "reachable s \<Longrightarrow> reachable (handleSignoutClick s)"
| dom_content_loaded: "reachable s \<Longrightarrow> reachable (DOMContentLoaded s)"
| integration_rejected: "reachable s \<Longrightarrow> reachable (integration_init_rejected err s)"
| refresh_called: "reachable s \<Longrightarrow> reachable (safeRefreshData s)"
| modal_closed: "reachable s \<Longrightarrow> reachable (closeEditModal s)"
| edit_submitted: "reachable s \<Longrightarrow> editForm_submit r s = Some s' \<Longrightarrow> reachable s'"
| edit_submitted_beyond:
    "reachable s \<Longrightarrow> editForm_submit r s = None \<Longrightarrow> edit_values s = Some row \<Longrightarrow>
     reachable (editForm_update n row r s)"
| row_deleted: "reachable s \<Longrightarrow> deleteCustomerRow rowIndex r s = Some s' \<Longrightarrow> reachable s'"
| row_deleted_beyond:
    "reachable s \<Longrightarrow> deleteCustomerRow rowIndex r s = None \<Longrightarrow>
     reachable (deleteCustomerRow_body index sheetRow start_row end_row r s)"
| customer_submitted: "reachable s \<Longrightarrow> reachable (addCustomerForm_submit customerData g u s)"
| form_reset: "reachable s \<Longrightarrow> reachable (resetAddCustomerForm s)"
| integration_polled: "reachable s \<Longrightarrow> reachable (initializeGoogleSheetsIntegration s)"
| override_polled: "reachable s \<Longrightarrow> reachable (setupRefreshDataOverride s)"
| error_caught: "reachable s \<Longrightarrow> reachable (window_error event_message s)"

text \<open>Auxiliary notions for the proofs: a handler that touches neither readiness flag and
  never renders the button, and the invariant that the button was rendered only with both
  flags set.\<close>

definition silent :: "(world \<Rightarrow> world) \<Rightarrow> bool" where
  "silent f \<longleftrightarrow>
     (\<forall>s. gapiInited (f s) = gapiInited s \<and> gisLoadedFlag (f s) = gisLoadedFlag s \<and>
          renderButton_calls (f s) = renderButton_calls s)"

definition render_gated :: "world \<Rightarrow> bool" where
  "render_gated s \<longleftrightarrow> (0 < renderButton_calls s \<longrightarrow> gapiInited s \<and> gisLoadedFlag s)"

section \<open>Basic facts about the handlers\<close>

text \<open>Which fields of the world each building block leaves alone.\<close>

lemma emit_fields [simp]:
  "gapiInited (emit e s) = gapiInited s"
  "gisLoadedFlag (emit e s) = gisLoadedFlag s"
  "currentIdToken (emit e s) = currentIdToken s"
  "initializationAttempts (emit e s) = initializationAttempts s"
  "CONFIG (emit e s) = CONFIG s"
  "document (emit e s) = document s"
  "sessionStorage (emit e s) = sessionStorage s"
  "localStorage (emit e s) = localStorage s"
  "gapi_client_token (emit e s) = gapi_client_token s"
  "gapi (emit e s) = gapi s"
  "google_accounts_id (emit e s) = google_accounts_id s"
  "googleSheetsIntegration (emit e s) = googleSheetsIntegration s"
  "timers (emit e s) = timers s"
  "trace (emit e s) = trace s @ [e]"
  by (simp_all add: emit_def)

lemma setElement_fields [simp]:
  "gapiInited (setElement i el s) = gapiInited s"
  "gisLoadedFlag (setElement i el s) = gisLoadedFlag s"
  "currentIdToken (setElement i el s) = currentIdToken s"
  "initializationAttempts (setElement i el s) = initializationAttempts s"
  "CONFIG (setElement i el s) = CONFIG s"
  "document (setElement i el s) = (document s)(i \<mapsto> el)"
  "sessionStorage (setElement i el s) = sessionStorage s"
  "localStorage (setElement i el s) = localStorage s"
  "gapi_client_token (setElement i el s) = gapi_client_token s"
  "gapi (setElement i el s) = gapi s"
  "google_accounts_id (setElement i el s) = google_accounts_id s"
  "googleSheetsIntegration (setElement i el s) = googleSheetsIntegration s"
  "timers (setElement i el s) = timers s"
  "trace (setElement i el s) = trace s"
  by (simp_all add: setElement_def)

lemma showUserError_fields [simp]:
  "gapiInited (showUserError m s) = gapiInited s"
  "gisLoadedFlag (showUserError m s) = gisLoadedFlag s"
  "currentIdToken (showUserError m s) = currentIdToken s"
  "initializationAttempts (showUserError m s) = initializationAttempts s"
  "CONFIG (showUserError m s) = CONFIG s"
  "sessionStorage (showUserError m s) = sessionStorage s"
  "localStorage (showUserError m s) = localStorage s"
  "gapi_client_token (showUserError m s) = gapi_client_token s"
  "gapi (showUserError m s) = gapi s"
  "google_accounts_id (showUserError m s) = google_accounts_id s"
  "googleSheetsIntegration (showUserError m s) = googleSheetsIntegration s"
  "timers (showUserError m s) = timers s"
  "trace (showUserError m s) = trace s"
  by (simp_all add: showUserError_def split: option.split)

lemma handleError_fields [simp]:
  "gapiInited (handleError err c s) = gapiInited s"
  "gisLoadedFlag (handleError err c s) = gisLoadedFlag s"
  "currentIdToken (handleError err c s) = currentIdToken s"
  "initializationAttempts (handleError err c s) = initializationAttempts s"
  "CONFIG (handleError err c s) = CONFIG s"
  "sessionStorage (handleError err c s) = sessionStorage s"
  "localStorage (handleError err c s) = localStorage s"
  "gapi_client_token (handleError err c s) = gapi_client_token s"
  "gapi (handleError err c s) = gapi s"
  "google_accounts_id (handleError err c s) = google_accounts_id s"
  "googleSheetsIntegration (handleError err c s) = googleSheetsIntegration s"
  "timers (handleError err c s) = timers s"
  "trace (handleError err c s) = trace s @ [Console ''error'' (''Error in '' @ c @ '': '' @ message err)]"
  by (simp_all add: handleError_def ErrorHandler_log_def)

lemma log_fields [simp]:
  "ErrorHandler_log m l s = emit (Console l m) s"
  "console_log m s = emit (Console ''log'' m) s"
  by (simp_all add: ErrorHandler_log_def console_log_def)

lemma setTimeout_fields [simp]:
  "gapiInited (setTimeout cb d s) = gapiInited s"
  "gisLoadedFlag (setTimeout cb d s) = gisLoadedFlag s"
  "currentIdToken (setTimeout cb d s) = currentIdToken s"
  "initializationAttempts (setTimeout cb d s) = initializationAttempts s"
  "CONFIG (setTimeout cb d s) = CONFIG s"
  "document (setTimeout cb d s) = document s"
  "sessionStorage (setTimeout cb d s) = sessionStorage s"
  "localStorage (setTimeout cb d s) = localStorage s"
  "gapi_client_token (setTimeout cb d s) = gapi_client_token s"
  "gapi (setTimeout cb d s) = gapi s"
  "google_accounts_id (setTimeout cb d s) = google_accounts_id s"
  "googleSheetsIntegration (setTimeout cb d s) = googleSheetsIntegration s"
  "timers (setTimeout cb d s) = timers s @ [(cb, d)]"
  "trace (setTimeout cb d s) = trace s @ [SetTimeout cb d]"
  by (simp_all add: setTimeout_def)

lemma gapi_client_simps [simp]:
  "gapi_client_defined (emit e s) = gapi_client_defined s"
  "gapi_client_defined (setElement i el s) = gapi_client_defined s"
  "gapi_client_defined (showUserError m s) = gapi_client_defined s"
  "gapi_client_defined (handleError err c s) = gapi_client_defined s"
  "gapi_client_defined (s\<lparr>currentIdToken := t\<rparr>) = gapi_client_defined s"
  "gapi_client_defined (s\<lparr>gapiInited := b\<rparr>) = gapi_client_defined s"
  "gapi_client_defined (s\<lparr>gisLoadedFlag := b\<rparr>) = gapi_client_defined s"
  "gapi_client_defined (s\<lparr>gapi_client_token := tok\<rparr>) = gapi_client_defined s"
  "gapi_client_defined (s\<lparr>timers := ts\<rparr>) = gapi_client_defined s"
  "gapi_client_sheets (emit e s) = gapi_client_sheets s"
  "gapi_client_sheets (setElement i el s) = gapi_client_sheets s"
  "gapi_client_sheets (showUserError m s) = gapi_client_sheets s"
  "gapi_client_sheets (handleError err c s) = gapi_client_sheets s"
  by (simp_all add: gapi_client_defined_def gapi_client_sheets_def)

lemma updateSigninStatus_frame [simp]:
  "gapiInited (updateSigninStatus b s) = gapiInited s"
  "gisLoadedFlag (updateSigninStatus b s) = gisLoadedFlag s"
  "currentIdToken (updateSigninStatus b s) = currentIdToken s"
  "initializationAttempts (updateSigninStatus b s) = initializationAttempts s"
  "CONFIG (updateSigninStatus b s) = CONFIG s"
  "localStorage (updateSigninStatus b s) = localStorage s"
  "gapi (updateSigninStatus b s) = gapi s"
  "google_accounts_id (updateSigninStatus b s) = google_accounts_id s"
  "googleSheetsIntegration (updateSigninStatus b s) = googleSheetsIntegration s"
  "timers (updateSigninStatus b s) = timers s"
  by (simp_all add: updateSigninStatus_def getElementById_def Let_def split: option.split binding.split)

lemma updateSigninStatus_events:
  "\<exists>es. trace (updateSigninStatus b s) = trace s @ es \<and>
     (\<forall>e\<in>set es. (\<exists>l m. e = Console l m) \<or> e = IntegrationInit)"
  by (auto simp add: updateSigninStatus_def getElementById_def Let_def
      split: option.split binding.split)

lemma updateSigninStatus_trace:
  "filter is_renderButton (trace (updateSigninStatus b s)) = filter is_renderButton (trace s)"
  "filter is_remote_call (trace (updateSigninStatus b s)) = filter is_remote_call (trace s)"
  "concat (map retry_delay (trace (updateSigninStatus b s))) = concat (map retry_delay (trace s))"
  "filter (\<lambda>e. e = DisableAutoSelect) (trace (updateSigninStatus b s)) = filter (\<lambda>e. e = DisableAutoSelect) (trace s)"
proof -
  obtain es where es: "trace (updateSigninStatus b s) = trace s @ es"
    and quiet: "\<forall>e\<in>set es. (\<exists>l m. e = Console l m) \<or> e = IntegrationInit"
    using updateSigninStatus_events by blast
  have "filter is_renderButton es = []" "filter is_remote_call es = []"
    "concat (map retry_delay es) = []" "filter (\<lambda>e. e = DisableAutoSelect) es = []"
    using quiet by (auto simp add: filter_empty_conv)
  then show
    "filter is_renderButton (trace (updateSigninStatus b s)) = filter is_renderButton (trace s)"
    "filter is_remote_call (trace (updateSigninStatus b s)) = filter is_remote_call (trace s)"
    "concat (map retry_delay (trace (updateSigninStatus b s))) = concat (map retry_delay (trace s))"
    "filter (\<lambda>e. e = DisableAutoSelect) (trace (updateSigninStatus b s)) = filter (\<lambda>e. e = DisableAutoSelect) (trace s)"
    by (simp_all add: es)
qed

lemma maybeRender_frame [simp]:
  "gapiInited (maybeRenderSignInButton s) = gapiInited s"
  "gisLoadedFlag (maybeRenderSignInButton s) = gisLoadedFlag s"
  "currentIdToken (maybeRenderSignInButton s) = currentIdToken s"
  "initializationAttempts (maybeRenderSignInButton s) = initializationAttempts s"
  "CONFIG (maybeRenderSignInButton s) = CONFIG s"
  "localStorage (maybeRenderSignInButton s) = localStorage s"
  "gapi (maybeRenderSignInButton s) = gapi s"
  "google_accounts_id (maybeRenderSignInButton s) = google_accounts_id s"
  "googleSheetsIntegration (maybeRenderSignInButton s) = googleSheetsIntegration s"
  "timers (maybeRenderSignInButton s) = timers s"
  by (simp_all add: maybeRenderSignInButton_def getElementById_def Let_def split: option.split)

lemma catch_attempts:
  "initializationAttempts (initializeGapiClient_catch err s) = Suc (initializationAttempts s)"
  by (simp add: initializeGapiClient_catch_def Let_def setTimeout_def ErrorHandler_log_def)

lemma catch_timers:
  "timers (initializeGapiClient_catch err s) =
     timers s @ (if Suc (initializationAttempts s) < MAX_INITIALIZATION_ATTEMPTS
                 then [(InitializeGapiClient, 2000 * Suc (initializationAttempts s))] else [])"
  by (simp add: initializeGapiClient_catch_def Let_def setTimeout_def ErrorHandler_log_def)

lemma catch_frame [simp]:
  "gapiInited (initializeGapiClient_catch err s) = gapiInited s"
  "gisLoadedFlag (initializeGapiClient_catch err s) = gisLoadedFlag s"
  "CONFIG (initializeGapiClient_catch err s) = CONFIG s"
  "gapi (initializeGapiClient_catch err s) = gapi s"
  by (simp_all add: initializeGapiClient_catch_def Let_def)

lemma initializeGapiClient_timers:
  "timers (initializeGapiClient r s) = timers s \<and>
     initializationAttempts (initializeGapiClient r s) \<le> Suc (initializationAttempts s) \<or>
   timers (initializeGapiClient r s) =
     timers s @ [(InitializeGapiClient, 2000 * Suc (initializationAttempts s))] \<and>
     initializationAttempts (initializeGapiClient r s) = Suc (initializationAttempts s) \<and>
     Suc (initializationAttempts s) < MAX_INITIALIZATION_ATTEMPTS"
  by (simp add: initializeGapiClient_def initializeGapiClient_begin_def initializeGapiClient_resume_def
      catch_attempts catch_timers Let_def split: outcome.split)

text \<open>The observations on the trace, through the same building blocks.\<close>

lemma retry_delays_emit [simp]: "retry_delays (emit e s) = retry_delays s @ retry_delay e"
  by (simp add: retry_delays_def)

lemma retry_delays_timers [simp]: "retry_delays (s\<lparr>timers := ts\<rparr>) = retry_delays s"
  by (simp add: retry_delays_def)

lemma catch_retry_delays:
  "retry_delays (initializeGapiClient_catch err s) =
     retry_delays s @ (if Suc (initializationAttempts s) < MAX_INITIALIZATION_ATTEMPTS
                       then [2000 * Suc (initializationAttempts s)] else [])"
  by (simp add: initializeGapiClient_catch_def retry_delays_def Let_def)

lemma renders_emit [simp]:
  "renderButton_calls (emit e s) = renderButton_calls s + (if is_renderButton e then 1 else 0)"
  by (simp add: renderButton_calls_def)

lemma renders_update [simp]:
  "renderButton_calls (s\<lparr>gapiInited := b\<rparr>) = renderButton_calls s"
  "renderButton_calls (s\<lparr>gisLoadedFlag := b\<rparr>) = renderButton_calls s"
  "renderButton_calls (s\<lparr>currentIdToken := t\<rparr>) = renderButton_calls s"
  "renderButton_calls (s\<lparr>initializationAttempts := n\<rparr>) = renderButton_calls s"
  "renderButton_calls (s\<lparr>document := d\<rparr>) = renderButton_calls s"
  "renderButton_calls (s\<lparr>sessionStorage := ss\<rparr>) = renderButton_calls s"
  "renderButton_calls (s\<lparr>localStorage := ls\<rparr>) = renderButton_calls s"
  "renderButton_calls (s\<lparr>gapi_client_token := tok\<rparr>) = renderButton_calls s"
  "renderButton_calls (s\<lparr>gapi := lib\<rparr>) = renderButton_calls s"
  "renderButton_calls (s\<lparr>google_accounts_id := gid\<rparr>) = renderButton_calls s"
  "renderButton_calls (s\<lparr>googleSheetsIntegration := gsi\<rparr>) = renderButton_calls s"
  "renderButton_calls (s\<lparr>timers := ts\<rparr>) = renderButton_calls s"
  by (simp_all add: renderButton_calls_def)

lemma renders_basic [simp]:
  "renderButton_calls (setElement i el s) = renderButton_calls s"
  "renderButton_calls (showUserError m s) = renderButton_calls s"
  "renderButton_calls (handleError err c s) = renderButton_calls s"
  "renderButton_calls (setTimeout cb d s) = renderButton_calls s"
  "renderButton_calls (updateSigninStatus b s) = renderButton_calls s"
  by (simp_all add: renderButton_calls_def updateSigninStatus_trace)

lemma renders_maybeRender:
  "renderButton_calls (maybeRenderSignInButton s) =
     renderButton_calls s +
     (if gapiInited s \<and> gisLoadedFlag s \<and> getElementById s ''g_id_onload'' \<noteq> None then 1 else 0)"
  by (simp add: maybeRenderSignInButton_def getElementById_def Let_def split: option.split)

lemma autoselect_emit [simp]:
  "disableAutoSelect_calls (emit e s) = disableAutoSelect_calls s + (if e = DisableAutoSelect then 1 else 0)"
  by (simp add: disableAutoSelect_calls_def)

lemma autoselect_update [simp]:
  "disableAutoSelect_calls (s\<lparr>currentIdToken := t\<rparr>) = disableAutoSelect_calls s"
  "disableAutoSelect_calls (s\<lparr>sessionStorage := ss\<rparr>) = disableAutoSelect_calls s"
  "disableAutoSelect_calls (s\<lparr>localStorage := ls\<rparr>) = disableAutoSelect_calls s"
  "disableAutoSelect_calls (updateSigninStatus b s) = disableAutoSelect_calls s"
  by (simp_all add: disableAutoSelect_calls_def updateSigninStatus_trace)

lemma remote_emit [simp]:
  "remote_calls (emit e s) = remote_calls s @ (if is_remote_call e then [e] else [])"
  by (simp add: remote_calls_def)

lemma remote_basic [simp]:
  "remote_calls (setElement i el s) = remote_calls s"
  "remote_calls (showUserError m s) = remote_calls s"
  "remote_calls (handleError err c s) = remote_calls s"
  "remote_calls (setTimeout cb d s) = remote_calls s"
  by (simp_all add: remote_calls_def)

lemma remote_safeRefreshData [simp]: "remote_calls (safeRefreshData s) = remote_calls s"
  by (simp add: safeRefreshData_def Let_def)

lemma remote_closeEditModal [simp]: "remote_calls (closeEditModal s) = remote_calls s"
  by (simp add: closeEditModal_def getElementById_def Let_def split: option.split)

lemma remote_editForm_catch [simp]: "remote_calls (editForm_catch err s) = remote_calls s"
  by (simp add: editForm_catch_def)

lemma remote_finally [simp]: "remote_calls (fst (addCustomer_finally s)) = remote_calls s"
  by (simp add: addCustomer_finally_def getElementById_def split: option.split)

lemma remote_unhandledrejection [simp]: "remote_calls (unhandledrejection reason s) = remote_calls s"
  by (simp add: unhandledrejection_def)

lemma required_elements_present_simps [simp]:
  "required_elements_present (emit e s) = required_elements_present s"
  "required_elements_present (s\<lparr>currentIdToken := t\<rparr>) = required_elements_present s"
  "required_elements_present (s\<lparr>gapiInited := b\<rparr>) = required_elements_present s"
  "required_elements_present (s\<lparr>gisLoadedFlag := b\<rparr>) = required_elements_present s"
  "required_elements_present (showUserError m s) = required_elements_present s"
  "required_elements_present (handleError err c s) = required_elements_present s"
  "required_elements_present (s\<lparr>gapi_client_token := tok\<rparr>) = required_elements_present s"
  by (simp_all add: required_elements_present_def showUserError_def handleError_def getElementById_def
      setElement_def split: option.split)

text \<open>The view transition, with its containers and without.\<close>

lemma updateSigninStatus_missing:
  "\<not> required_elements_present s \<Longrightarrow>
   updateSigninStatus b s =
     s\<lparr>trace := trace s @ [Console ''info'' (''Updating sign-in status: '' @ show_bool b),
                             Console ''info'' ''Required DOM elements not found'']\<rparr>"
  by (auto simp add: updateSigninStatus_def required_elements_present_def getElementById_def emit_def
      Let_def split: option.split)

text \<open>
  With its containers the transition sets the three \<open>display\<close> properties first; these
  stay whatever is raised afterwards.
\<close>

lemma updateSigninStatus_view:
  assumes "required_elements_present s"
  shows "display_of (updateSigninStatus True s) ''sign-in-container'' = Some ''none''"
    and "display_of (updateSigninStatus True s) ''main-content'' = Some ''block''"
    and "display_of (updateSigninStatus True s) ''sign-out-button'' = Some ''block''"
    and "display_of (updateSigninStatus False s) ''sign-in-container'' = Some ''block''"
    and "display_of (updateSigninStatus False s) ''main-content'' = Some ''none''"
    and "display_of (updateSigninStatus False s) ''sign-out-button'' = Some ''none''"
    and "sessionStorage (updateSigninStatus False s) = sessionStorage s"
  using assms
  by (auto simp add: updateSigninStatus_def required_elements_present_def getElementById_def
      display_of_def handleError_def showUserError_def setElement_def Let_def
      split: option.split binding.split)

text \<open>The signed-in branch runs to its end when neither of its two statements raises.\<close>

lemma updateSigninStatus_in:
  assumes "required_elements_present s"
    and "truthy (currentIdToken s) \<longrightarrow> gapi_client_defined s"
    and "googleSheetsIntegration s \<noteq> Undeclared"
  shows "sessionStorage (updateSigninStatus True s) = (sessionStorage s)(''isLoggedIn'' \<mapsto> ''true'')"
    and "gapi_client_token (updateSigninStatus True s) =
           (case currentIdToken s of
              Some t \<Rightarrow> if t \<noteq> [] then Some (AccessToken t) else gapi_client_token s
            | None \<Rightarrow> gapi_client_token s)"
  using assms
  by (auto simp add: updateSigninStatus_def required_elements_present_def getElementById_def
      truthy_def Let_def split: option.split binding.split)

text \<open>When one of them raises, the session flag is not written.\<close>

lemma updateSigninStatus_in_raises:
  assumes "truthy (currentIdToken s) \<and> \<not> gapi_client_defined s \<or> googleSheetsIntegration s = Undeclared"
  shows "sessionStorage (updateSigninStatus True s) = sessionStorage s"
  using assms
  by (auto simp add: updateSigninStatus_def getElementById_def truthy_def Let_def
      split: option.split binding.split)

lemma updateSigninStatus_out:
  assumes "required_elements_present s" and "gapi_client_defined s"
  shows "gapi_client_token (updateSigninStatus False s) = Some (TokenString [])"
  using assms
  by (auto simp add: updateSigninStatus_def required_elements_present_def getElementById_def
      Let_def split: option.split)

lemma updateSigninStatus_out_raises:
  assumes "\<not> gapi_client_defined s"
  shows "gapi_client_token (updateSigninStatus False s) = gapi_client_token s"
  using assms
  by (auto simp add: updateSigninStatus_def getElementById_def Let_def split: option.split)

lemma handleSignoutClick_effects:
  "currentIdToken (handleSignoutClick s) = None"
  "disableAutoSelect_calls (handleSignoutClick s) =
     disableAutoSelect_calls s + (if google_accounts_id s then 1 else 0)"
  "sessionStorage (handleSignoutClick s) ''isLoggedIn'' = None"
  "localStorage (handleSignoutClick s) ''isLoggedIn'' = None"
  by (simp_all add: handleSignoutClick_def Let_def)

lemma handleSignoutClick_token:
  assumes "required_elements_present s" and "gapi_client_defined s"
  shows "gapi_client_token (handleSignoutClick s) = Some (TokenString [])"
  using assms
  by (simp add: handleSignoutClick_def Let_def updateSigninStatus_out)

text \<open>The concrete pages.\<close>

lemma example_page_loaded: "script_loaded example_page"
  by (simp add: script_loaded_def example_page_def)

lemma example_page_elements:
  "required_elements_present example_page"
  "required_elements_present returning_page"
  "required_elements_present both_flags_page"
  "\<not> required_elements_present page_without_signout_button"
  "\<not> required_elements_present login_only_page"
  by (simp_all add: required_elements_present_def example_page_def returning_page_def
      both_flags_page_def page_without_signout_button_def login_only_page_def)

lemma example_page_libraries:
  "gapi_client_defined example_page" "googleSheetsIntegration example_page \<noteq> Undeclared"
  "gapi_client_defined both_flags_page" "googleSheetsIntegration both_flags_page \<noteq> Undeclared"
  "currentIdToken both_flags_page = None"
  by (simp_all add: gapi_client_defined_def example_page_def both_flags_page_def)

lemma example_page_fails: "attempt_fails example_page (Rejects e)"
  by (simp add: attempt_fails_def)

lemma example_page_idle:
  "pending InitializeGapiClient example_page = 0" "initializationAttempts example_page = 0"
  "retry_delays example_page = []" "gapiInited example_page = False"
  by (simp_all add: pending_def example_page_def retry_delays_def)

lemma both_flags_page_fields:
  "google_accounts_id both_flags_page" "disableAutoSelect_calls both_flags_page = 0"
  "sessionStorage both_flags_page ''isLoggedIn'' = Some ''true''"
  "localStorage both_flags_page ''isLoggedIn'' = Some ''true''"
  by (simp_all add: both_flags_page_def example_page_def disableAutoSelect_calls_def)

lemma returning_page_restored:
  "required_elements_present (DOMContentLoaded returning_page)"
  "display_of (DOMContentLoaded returning_page) ''main-content'' = Some ''block''"
  "display_of (DOMContentLoaded returning_page) ''sign-in-container'' = Some ''none''"
  "sessionStorage (DOMContentLoaded returning_page) ''isLoggedIn'' = Some ''true''"
  "google_accounts_id (DOMContentLoaded returning_page) = False"
  "disableAutoSelect_calls (DOMContentLoaded returning_page) = 0"
  "gapiInited (DOMContentLoaded returning_page) = False"
  "gisLoadedFlag (DOMContentLoaded returning_page) = False"
  by (simp_all add: DOMContentLoaded_def returning_page_def example_page_def getElementById_def
      updateSigninStatus_def required_elements_present_def display_of_def disableAutoSelect_calls_def
      truthy_def emit_def setElement_def Let_def)

lemma restored_ready_page_fields:
  "gapiInited restored_ready_page" "gisLoadedFlag restored_ready_page"
  "document restored_ready_page ''g_id_onload'' \<noteq> None"
  "required_elements_present restored_ready_page"
  "gapi_client_defined restored_ready_page"
  "display_of restored_ready_page ''main-content'' = Some ''block''"
  "sessionStorage restored_ready_page ''isLoggedIn'' = Some ''true''"
  by (simp_all add: restored_ready_page_def gisLoaded_def DOMContentLoaded_def both_flags_page_def
      example_page_def example_config_def maybeRenderSignInButton_def updateSigninStatus_def
      getElementById_def setElement_def emit_def required_elements_present_def display_of_def
      gapi_client_defined_def truthy_def Let_def)

lemma login_only_page_fields:
  "gapiInited login_only_page" "gisLoadedFlag login_only_page"
  "document login_only_page ''g_id_onload'' \<noteq> None"
  "renderButton_calls login_only_page = 0"
  "gapi_client_token login_only_page = None"
  "gapi_client_defined login_only_page"
  "display_of login_only_page ''main-content'' = Some []"
  by (simp_all add: login_only_page_def page_without_signout_button_def example_page_def
      renderButton_calls_def gapi_client_defined_def display_of_def blank_def)

lemma ready_page_fields:
  "gapiInited ready_page" "gapi_client_sheets ready_page" "gapi_client_defined ready_page"
  "remote_calls ready_page = []" "SPREADSHEET_ID (CONFIG ready_page) = ''sheet''"
  "document ready_page ''errorDisplay'' = Some blank"
  by (simp_all add: ready_page_def example_page_def example_config_def remote_calls_def
      gapi_client_sheets_def gapi_client_defined_def)

lemma example_page_not_ready:
  "\<not> gapiInited example_page" "remote_calls example_page = []"
  "document example_page ''errorDisplay'' = Some blank"
  by (simp_all add: example_page_def remote_calls_def)




section \<open>Running the retry timers\<close>

text \<open>
  A call of \<open>initializeGapiClient\<close> either leaves the timer queue alone or appends one retry
  timer, and in the latter case the attempt counter has grown and is still below the
  maximum.  That bounds the number of calls, whatever the outcomes are: the run of the retry
  timers always ends.
\<close>

lemma fire_pending:
  "fire cb ts = Some ts' \<Longrightarrow> Suc (length (filter (\<lambda>t. fst t = cb) ts')) = length (filter (\<lambda>t. fst t = cb) ts)"
  by (induction ts arbitrary: ts') (auto split: if_splits)

function run_initialization :: "(nat \<Rightarrow> unit outcome) \<Rightarrow> nat \<Rightarrow> world \<Rightarrow> world" where
  "run_initialization results k s =
     (let s' = initializeGapiClient (results k) s in
      case fire InitializeGapiClient (timers s') of
        None \<Rightarrow> s'
      | Some ts \<Rightarrow> run_initialization results (Suc k) (s'\<lparr>timers := ts\<rparr>))"
  by pat_completeness auto

termination
proof (relation "measure (\<lambda>(results, k, s).
         4 * pending InitializeGapiClient s + (MAX_INITIALIZATION_ATTEMPTS - initializationAttempts s))")
  show "wf (measure (\<lambda>(results, k, s).
         4 * pending InitializeGapiClient s + (MAX_INITIALIZATION_ATTEMPTS - initializationAttempts s)))"
    by simp
next
  fix results :: "nat \<Rightarrow> unit outcome" and k :: nat and s s' :: world and ts
  assume s': "s' = initializeGapiClient (results k) s"
    and ts: "fire InitializeGapiClient (timers s') = Some ts"
  from fire_pending [OF ts]
  have p: "Suc (pending InitializeGapiClient (s'\<lparr>timers := ts\<rparr>)) = pending InitializeGapiClient s'"
    by (simp add: pending_def)
  from initializeGapiClient_timers [of "results k" s] s'
  consider
    (same) "timers s' = timers s" "initializationAttempts s' \<le> Suc (initializationAttempts s)"
  | (retry) "timers s' = timers s @ [(InitializeGapiClient, 2000 * Suc (initializationAttempts s))]"
      "initializationAttempts s' = Suc (initializationAttempts s)"
      "Suc (initializationAttempts s) < MAX_INITIALIZATION_ATTEMPTS"
    by blast
  then show "((results, Suc k, s'\<lparr>timers := ts\<rparr>), (results, k, s)) \<in> measure (\<lambda>(results, k, s).
         4 * pending InitializeGapiClient s + (MAX_INITIALIZATION_ATTEMPTS - initializationAttempts s))"
  proof cases
    case same
    then have "pending InitializeGapiClient s' = pending InitializeGapiClient s"
      by (simp add: pending_def)
    with p show ?thesis
      by (simp add: MAX_INITIALIZATION_ATTEMPTS_def)
  next
    case retry
    then have "pending InitializeGapiClient s' = Suc (pending InitializeGapiClient s)"
      by (simp add: pending_def)
    with p retry show ?thesis
      by (simp add: MAX_INITIALIZATION_ATTEMPTS_def)
  qed
qed

declare run_initialization.simps [simp del]

lemma failed_attempt:
  assumes "attempt_fails s r"
  shows "initializationAttempts (initializeGapiClient r s) = Suc (initializationAttempts s)"
    and "timers (initializeGapiClient r s) =
           timers s @ (if Suc (initializationAttempts s) < MAX_INITIALIZATION_ATTEMPTS
                       then [(InitializeGapiClient, 2000 * Suc (initializationAttempts s))] else [])"
    and "retry_delays (initializeGapiClient r s) =
           retry_delays s @ (if Suc (initializationAttempts s) < MAX_INITIALIZATION_ATTEMPTS
                             then [2000 * Suc (initializationAttempts s)] else [])"
    and "gapiInited (initializeGapiClient r s) = gapiInited s"
    and "CONFIG (initializeGapiClient r s) = CONFIG s"
    and "gapi (initializeGapiClient r s) = gapi s"
  using assms
  by (auto simp add: attempt_fails_def initializeGapiClient_def initializeGapiClient_begin_def
      initializeGapiClient_resume_def catch_attempts catch_timers catch_retry_delays
      Let_def split: outcome.splits)

lemma fire_none: "fire cb ts = None \<longleftrightarrow> length (filter (\<lambda>t. fst t = cb) ts) = 0"
  by (induction ts) auto

lemma fire_last:
  "fire cb ts = None \<Longrightarrow> fire cb (ts @ [(cb, d)]) = Some ts"
  by (induction ts) (auto split: if_splits)

lemma attempt_fails_cong:
  "CONFIG s' = CONFIG s \<Longrightarrow> gapi s' = gapi s \<Longrightarrow> attempt_fails s' r = attempt_fails s r"
  by (simp add: attempt_fails_def gapi_client_defined_def)

lemma run_failed_attempt:
  assumes fails: "attempt_fails s (results k)"
    and idle: "pending InitializeGapiClient s = 0"
  shows "run_initialization results k s =
           (if Suc (initializationAttempts s) < MAX_INITIALIZATION_ATTEMPTS
            then run_initialization results (Suc k) ((initializeGapiClient (results k) s)\<lparr>timers := timers s\<rparr>)
            else initializeGapiClient (results k) s)"
proof -
  from idle have none: "fire InitializeGapiClient (timers s) = None"
    by (simp add: fire_none pending_def)
  show ?thesis
  proof (cases "Suc (initializationAttempts s) < MAX_INITIALIZATION_ATTEMPTS")
    case True
    with failed_attempt(2) [OF fails]
    have "fire InitializeGapiClient (timers (initializeGapiClient (results k) s)) = Some (timers s)"
      by (simp add: fire_last [OF none])
    with True show ?thesis
      by (subst run_initialization.simps) simp
  next
    case False
    with failed_attempt(2) [OF fails] none
    have "fire InitializeGapiClient (timers (initializeGapiClient (results k) s)) = None"
      by simp
    with False show ?thesis
      by (subst run_initialization.simps) simp
  qed
qed

lemma run_all_fail:
  assumes fails: "\<And>k. attempt_fails s (results k)"
    and idle: "pending InitializeGapiClient s = 0"
    and fresh: "initializationAttempts s = 0"
  shows "retry_delays (run_initialization results k s) = retry_delays s @ [2000, 4000]"
    and "initializationAttempts (run_initialization results k s) = 3"
    and "gapiInited (run_initialization results k s) = gapiInited s"
proof -
  let ?s1 = "(initializeGapiClient (results k) s)\<lparr>timers := timers s\<rparr>"
  let ?s2 = "(initializeGapiClient (results (Suc k)) ?s1)\<lparr>timers := timers ?s1\<rparr>"
  let ?s3 = "initializeGapiClient (results (Suc (Suc k))) ?s2"
  have f0: "attempt_fails s (results k)" by (rule fails)
  have c1: "CONFIG ?s1 = CONFIG s" by (simp add: failed_attempt(5) [OF f0])
  have g1: "gapi ?s1 = gapi s" by (simp add: failed_attempt(6) [OF f0])
  have f1: "attempt_fails ?s1 (results (Suc k))"
    by (rule iffD2 [OF attempt_fails_cong [OF c1 g1] fails])
  have i1: "pending InitializeGapiClient ?s1 = 0" using idle by (simp add: pending_def)
  have a1: "initializationAttempts ?s1 = 1"
    using failed_attempt(1) [OF f0] fresh by simp
  have c2: "CONFIG ?s2 = CONFIG s" by (simp add: failed_attempt(5) [OF f1] c1)
  have g2: "gapi ?s2 = gapi s" by (simp add: failed_attempt(6) [OF f1] g1)
  have f2: "attempt_fails ?s2 (results (Suc (Suc k)))"
    by (rule iffD2 [OF attempt_fails_cong [OF c2 g2] fails])
  have i2: "pending InitializeGapiClient ?s2 = 0" using idle by (simp add: pending_def)
  have a2: "initializationAttempts ?s2 = 2"
    using failed_attempt(1) [OF f1] a1 by simp
  have run: "run_initialization results k s = ?s3"
    using run_failed_attempt [of s results k, OF f0 idle]
      run_failed_attempt [of ?s1 results "Suc k", OF f1 i1]
      run_failed_attempt [of ?s2 results "Suc (Suc k)", OF f2 i2]
      fresh a1 a2
    by (simp add: MAX_INITIALIZATION_ATTEMPTS_def)
  have d1: "retry_delays ?s1 = retry_delays s @ [2000]"
    using failed_attempt(3) [OF f0] fresh by (simp add: MAX_INITIALIZATION_ATTEMPTS_def)
  have d2: "retry_delays ?s2 = retry_delays s @ [2000, 4000]"
    using failed_attempt(3) [OF f1] a1 d1 by (simp add: MAX_INITIALIZATION_ATTEMPTS_def)
  show "retry_delays (run_initialization results k s) = retry_delays s @ [2000, 4000]"
    using failed_attempt(3) [OF f2] a2 d2 run by (simp add: MAX_INITIALIZATION_ATTEMPTS_def)
  show "initializationAttempts (run_initialization results k s) = 3"
    using failed_attempt(1) [OF f2] a2 run by simp
  show "gapiInited (run_initialization results k s) = gapiInited s"
    using failed_attempt(4) [OF f0] failed_attempt(4) [OF f1] failed_attempt(4) [OF f2] run by simp
qed

section \<open>C1: the retry schedule of the API client initialization\<close>

text \<open>
  C1 as stated fails.  On the example page let every \<open>gapi.client.init\<close> promise be
  rejected: the attempt counter ends at 3, but only two retries were scheduled, after 2000
  and 4000 ms; that is not \<open>min(3, 3) = 3\<close> retries, and no 6000 ms delay is ever used.  The
  third failure raises the counter to \<open>MAX_INITIALIZATION_ATTEMPTS\<close>, and the guard
  \<open>initializationAttempts < MAX_INITIALIZATION_ATTEMPTS\<close> then schedules nothing.
\<close>

theorem retries_stop_after_two_counterexample:
  "initializationAttempts (run_initialization (\<lambda>k. Rejects (Error ''network'')) 0 example_page) = 3 \<and>
   retry_delays (run_initialization (\<lambda>k. Rejects (Error ''network'')) 0 example_page) = [2000, 4000] \<and>
   length (retry_delays (run_initialization (\<lambda>k. Rejects (Error ''network'')) 0 example_page))
     \<noteq> min (initializationAttempts (run_initialization (\<lambda>k. Rejects (Error ''network'')) 0 example_page)) 3 \<and>
   retry_delays (run_initialization (\<lambda>k. Rejects (Error ''network'')) 0 example_page) \<noteq> [2000, 4000, 6000]"
  using run_all_fail [of example_page "\<lambda>k. Rejects (Error ''network'')" 0]
  by (simp add: example_page_fails example_page_idle)

text \<open>
  C1, amended: when every attempt fails (the configuration is incomplete, \<open>gapi.client\<close>
  is undefined or the promise is rejected), starting from a freshly loaded script with no
  retry pending, initialization is attempted \<open>MAX_INITIALIZATION_ATTEMPTS = 3\<close> times in
  all, that is, it is retried exactly twice; the \<open>k\<close>-th retry is scheduled \<open>2000 * k\<close> ms
  after the \<open>k\<close>-th failure (2000, then 4000 ms), and the readiness flag is left as it was.
\<close>

theorem initialization_retry_schedule:
  assumes "\<forall>k. attempt_fails s (results k)"
    and "pending InitializeGapiClient s = 0"
    and "initializationAttempts s = 0"
  shows "retry_delays (run_initialization results 0 s) = retry_delays s @ map (\<lambda>k. 2000 * k) [1, 2] \<and>
         length (retry_delays (run_initialization results 0 s)) =
           length (retry_delays s) + (MAX_INITIALIZATION_ATTEMPTS - 1) \<and>
         initializationAttempts (run_initialization results 0 s) = MAX_INITIALIZATION_ATTEMPTS \<and>
         gapiInited (run_initialization results 0 s) = gapiInited s"
  using run_all_fail [of s results 0] assms
  by (simp add: MAX_INITIALIZATION_ATTEMPTS_def)

theorem initialization_retry_schedule_witness:
  "(\<forall>k. attempt_fails example_page (Rejects (Error ''network''))) \<and>
   pending InitializeGapiClient example_page = 0 \<and>
   initializationAttempts example_page = 0 \<and>
   retry_delays (run_initialization (\<lambda>k. Rejects (Error ''network'')) 0 example_page) = [2000, 4000] \<and>
   initializationAttempts (run_initialization (\<lambda>k. Rejects (Error ''network'')) 0 example_page) = 3 \<and>
   gapiInited (run_initialization (\<lambda>k. Rejects (Error ''network'')) 0 example_page) = False"
  using initialization_retry_schedule [of example_page "\<lambda>k. Rejects (Error ''network'')"]
  by (simp add: example_page_fails example_page_idle MAX_INITIALIZATION_ATTEMPTS_def)

section \<open>C2: the storage keys of the session flag\<close>

lemma handleCredentialResponse_accepted:
  assumes "credential response = Some c" and "c \<noteq> []"
  shows "handleCredentialResponse response s =
           emit (Console ''info'' ''Login successful'')
             (updateSigninStatus True
                ((emit (Console ''info'' ''Credential response received'')
                   (emit (Console ''log'' ''handleCredentialResponse called'') s))
                 \<lparr>currentIdToken := Some c\<rparr>))"
  using assms by (simp add: handleCredentialResponse_def truthy_def Let_def)

text \<open>
  C2 as stated fails in both halves.  Signing in on the example page writes
  \<open>isLoggedIn\<close> to the session storage only: the local storage still has no such key.
  Signing out on a page that holds the key in both storages removes it from both: no
  mirrored key is left behind.
\<close>

theorem session_flag_keys_counterexample:
  "sessionStorage (handleCredentialResponse \<lparr>credential = Some ''jwt''\<rparr> example_page) ''isLoggedIn'' =
     Some ''true'' \<and>
   localStorage (handleCredentialResponse \<lparr>credential = Some ''jwt''\<rparr> example_page) ''isLoggedIn'' = None \<and>
   sessionStorage both_flags_page ''isLoggedIn'' = Some ''true'' \<and>
   localStorage both_flags_page ''isLoggedIn'' = Some ''true'' \<and>
   sessionStorage (handleSignoutClick both_flags_page) ''isLoggedIn'' = None \<and>
   localStorage (handleSignoutClick both_flags_page) ''isLoggedIn'' = None"
proof -
  let ?s1 = "(emit (Console ''info'' ''Credential response received'')
               (emit (Console ''log'' ''handleCredentialResponse called'') example_page))
             \<lparr>currentIdToken := Some ''jwt''\<rparr>"
  have "required_elements_present ?s1" "truthy (currentIdToken ?s1) \<longrightarrow> gapi_client_defined ?s1"
    "googleSheetsIntegration ?s1 \<noteq> Undeclared"
    using example_page_elements(1) example_page_libraries(1,2)
    by (simp_all add: required_elements_present_def)
  from updateSigninStatus_in(1) [OF this]
  have "sessionStorage (handleCredentialResponse \<lparr>credential = Some ''jwt''\<rparr> example_page) ''isLoggedIn'' =
          Some ''true''"
    by (simp add: handleCredentialResponse_accepted [of _ "''jwt''"])
  moreover
  have "localStorage (handleCredentialResponse \<lparr>credential = Some ''jwt''\<rparr> example_page) ''isLoggedIn'' = None"
    by (simp add: handleCredentialResponse_accepted [of _ "''jwt''"] example_page_def)
  ultimately show ?thesis
    by (simp add: handleSignoutClick_effects both_flags_page_fields)
qed

text \<open>
  C2, amended: the sign-in transition writes \<open>"true"\<close> under \<open>isLoggedIn\<close> in the session
  storage, provided that its three containers exist and that neither statement before the
  write raises (the API client library is loaded if a credential is held, and the global
  \<open>googleSheetsIntegration\<close> is declared); it leaves the local storage as it was in every
  case, also when it is reached through the credential callback.  The explicit sign-out
  removes \<open>isLoggedIn\<close> from the session storage and from the local storage.
\<close>

theorem session_flag_keys:
  "(required_elements_present s \<and> (truthy (currentIdToken s) \<longrightarrow> gapi_client_defined s) \<and>
    googleSheetsIntegration s \<noteq> Undeclared \<longrightarrow>
      sessionStorage (updateSigninStatus True s) ''isLoggedIn'' = Some ''true'') \<and>
   localStorage (updateSigninStatus True s) = localStorage s \<and>
   localStorage (handleCredentialResponse response s) = localStorage s \<and>
   sessionStorage (handleSignoutClick s) ''isLoggedIn'' = None \<and>
   localStorage (handleSignoutClick s) ''isLoggedIn'' = None"
  using updateSigninStatus_in(1) [of s]
  by (simp add: handleSignoutClick_effects handleCredentialResponse_def Let_def)

theorem session_flag_keys_witness:
  "required_elements_present both_flags_page \<and>
   gapi_client_defined both_flags_page \<and>
   googleSheetsIntegration both_flags_page \<noteq> Undeclared \<and>
   sessionStorage (updateSigninStatus True both_flags_page) ''isLoggedIn'' = Some ''true'' \<and>
   localStorage (updateSigninStatus True both_flags_page) = localStorage both_flags_page \<and>
   sessionStorage (handleSignoutClick both_flags_page) ''isLoggedIn'' = None \<and>
   localStorage (handleSignoutClick both_flags_page) ''isLoggedIn'' = None"
  using session_flag_keys [of both_flags_page]
  by (simp add: example_page_elements example_page_libraries)

section \<open>C3: the row range of a delete\<close>

text \<open>Without \<open>gapi.client.sheets\<close> the call of line 509 raises and nothing is sent.\<close>

lemma delete_without_sheets:
  assumes "\<not> gapi_client_sheets s" and "deleteCustomerRow i r s = Some s'"
  shows "remote_calls s' = remote_calls s"
  using assms
  by (auto simp add: deleteCustomerRow_def deleteCustomerRow_body_def deleteCustomerRow_catch_def
      Let_def split: option.splits number.splits)



section \<open>C4: signing in\<close>



section \<open>C5: signing out\<close>

text \<open>
  C5 as stated fails: the call of \<open>disableAutoSelect\<close> is guarded by
  \<open>typeof google.accounts.id !== 'undefined'\<close>.  A returning visitor's page is restored to
  the signed-in view from the stored flag at \<open>DOMContentLoaded\<close>; if the identity library
  has not loaded, a click on the sign-out control signs out without disabling auto-select.
\<close>

theorem signout_skips_autoselect_counterexample:
  "reachable (DOMContentLoaded returning_page) \<and>
   display_of (DOMContentLoaded returning_page) ''main-content'' = Some ''block'' \<and>
   display_of (DOMContentLoaded returning_page) ''sign-in-container'' = Some ''none'' \<and>
   sessionStorage (DOMContentLoaded returning_page) ''isLoggedIn'' = Some ''true'' \<and>
   disableAutoSelect_calls (handleSignoutClick (DOMContentLoaded returning_page)) = 0 \<and>
   DisableAutoSelect \<notin> set (trace (handleSignoutClick (DOMContentLoaded returning_page)))"
proof -
  have "disableAutoSelect_calls (handleSignoutClick (DOMContentLoaded returning_page)) = 0"
    by (simp add: handleSignoutClick_effects returning_page_restored)
  moreover from this
  have "DisableAutoSelect \<notin> set (trace (handleSignoutClick (DOMContentLoaded returning_page)))"
    by (auto simp add: disableAutoSelect_calls_def filter_empty_conv)
  moreover have "reachable (DOMContentLoaded returning_page)"
    by (intro reachable.dom_content_loaded reachable.script_start)
      (simp add: script_loaded_def returning_page_def example_page_def)
  ultimately show ?thesis
    by (simp add: returning_page_restored)
qed

text \<open>
  C5, amended: the explicit sign-out always clears the held credential; it calls
  \<open>disableAutoSelect\<close> once when the identity library is loaded and not at all otherwise; and
  when the three view containers exist (as they do in the signed-in view) and the API
  client library is loaded, it sets the API client's token to the empty string.
\<close>

theorem signout_clears_token_and_credential:
  "currentIdToken (handleSignoutClick s) = None \<and>
   disableAutoSelect_calls (handleSignoutClick s) =
     disableAutoSelect_calls s + (if google_accounts_id s then 1 else 0) \<and>
   (required_elements_present s \<and> gapi_client_defined s \<longrightarrow>
      gapi_client_token (handleSignoutClick s) = Some (TokenString []))"
  using handleSignoutClick_token [of s]
  by (simp add: handleSignoutClick_effects)

theorem signout_clears_token_and_credential_witness:
  "required_elements_present both_flags_page \<and> gapi_client_defined both_flags_page \<and>
   google_accounts_id both_flags_page \<and>
   currentIdToken (handleSignoutClick both_flags_page) = None \<and>
   disableAutoSelect_calls (handleSignoutClick both_flags_page) = 1 \<and>
   gapi_client_token (handleSignoutClick both_flags_page) = Some (TokenString [])"
  using signout_clears_token_and_credential [of both_flags_page]
  by (simp add: example_page_elements example_page_libraries both_flags_page_fields)

section \<open>C6: adding a customer with a required field missing\<close>

lemma handleAddCustomerSubmit_missing:
  assumes "required_field_missing customerData"
  shows "handleAddCustomerSubmit customerData g u s =
           (if \<not> gapiInited s then
              (showUserError ''Google API client not initialized. Please try again.'' s, None)
            else if \<not> gapi_client_defined s then (s, Some (undefined_property ''sheets''))
            else if \<not> gapi_client_sheets s then
              (showUserError ''Google API client not initialized. Please try again.'' s, None)
            else addCustomer_finally (showUserError ''Mohon lengkapi semua field yang wajib diisi'' s))"
  using assms by (simp add: handleAddCustomerSubmit_def)

lemma showUserError_document:
  "document (showUserError m s) ''errorDisplay'' =
     map_option (\<lambda>e. e\<lparr>innerHTML := banner m, display := ''block''\<rparr>) (document s ''errorDisplay'')"
  by (simp add: showUserError_def getElementById_def setElement_def split: option.split)

lemma finally_errorDisplay:
  "document (fst (addCustomer_finally s)) ''errorDisplay'' = document s ''errorDisplay''"
  "trace (fst (addCustomer_finally s)) = trace s"
  by (simp_all add: addCustomer_finally_def getElementById_def setElement_def split: option.split)

text \<open>The banner that \<open>showUserError\<close> writes holds its message.\<close>

lemma string_includes_append: "string_includes (xs @ m @ ys) m"
proof (induction xs)
  case Nil
  have "take (length m) (m @ ys) = m"
    by simp
  then show ?case
    by (cases "m @ ys") auto
next
  case (Cons x xs)
  then show ?case by simp
qed

lemma banner_shows: "string_includes (banner m) m"
proof -
  have "string_includes (xs @ xs' @ m @ ys) m" for xs xs' ys :: string
    using string_includes_append [of "xs @ xs'" m ys] by simp
  then show ?thesis
    unfolding banner_def by blast
qed

lemma string_includes_head: "string_includes xs (c # sub) \<Longrightarrow> c \<in> set xs"
  by (induction xs) auto

lemma sheets_defined: "gapi_client_sheets s \<Longrightarrow> gapi_client_defined s"
  by (simp add: gapi_client_sheets_def gapi_client_defined_def)

text \<open>
  C6 as stated fails.  The readiness check of line 615 comes before the validation of line
  625.  On the example page, where the API client is not initialized yet, a submission
  without an address shows ``Google API client not initialized. Please try again.'' in the
  error display: the validation message is not in it.
\<close>

theorem missing_field_before_ready_counterexample:
  "required_field_missing [''nama'' \<mapsto> ''Budi'', ''no_telepon'' \<mapsto> ''0812'', ''alamat'' \<mapsto> [],
                           ''odp_terdekat'' \<mapsto> ''ODP-7'', ''nama_sales'' \<mapsto> ''Sari''] \<and>
   gapiInited example_page = False \<and>
   document
     (fst (handleAddCustomerSubmit
        [''nama'' \<mapsto> ''Budi'', ''no_telepon'' \<mapsto> ''0812'', ''alamat'' \<mapsto> [],
         ''odp_terdekat'' \<mapsto> ''ODP-7'', ''nama_sales'' \<mapsto> ''Sari'']
        (Resolves None) (Resolves ()) example_page)) ''errorDisplay'' =
     Some (blank\<lparr>innerHTML := banner ''Google API client not initialized. Please try again.'',
                  display := ''block''\<rparr>) \<and>
   string_includes (banner ''Google API client not initialized. Please try again.'')
     ''Mohon lengkapi semua field yang wajib diisi'' = False"
proof -
  have missing: "required_field_missing [''nama'' \<mapsto> ''Budi'', ''no_telepon'' \<mapsto> ''0812'', ''alamat'' \<mapsto> [],
                           ''odp_terdekat'' \<mapsto> ''ODP-7'', ''nama_sales'' \<mapsto> ''Sari'']"
    by (simp add: required_field_missing_def truthy_def)
  have "CHR ''M'' \<notin> set (banner ''Google API client not initialized. Please try again.'')"
    by (simp add: banner_def)
  then have other: "string_includes (banner ''Google API client not initialized. Please try again.'')
     ''Mohon lengkapi semua field yang wajib diisi'' = False"
    using string_includes_head [of "banner ''Google API client not initialized. Please try again.''" "CHR ''M''"]
    by auto
  show ?thesis
    using missing other
    by (simp add: handleAddCustomerSubmit_missing [OF missing] showUserError_document
        example_page_not_ready)
qed

text \<open>
  C6, amended: when one of the five required fields is missing or empty, the handler makes
  no call at all to a collaborator (its trace is unchanged), so no remote read and no
  append; the same holds for the whole dispatch of the submit event.  When the API client is
  ready, the handler writes the banner of the validation message, which holds the text
  ``Mohon lengkapi semua field yang wajib diisi'', to the error display if the page has one.
  When the client is not ready, the earlier check writes the banner of its own
  ``not initialized'' message instead; and when \<open>gapiInited\<close> is set while \<open>gapi.client\<close> is
  undefined, that check raises and nothing is shown.
\<close>

theorem add_with_missing_field_short_circuits:
  assumes "required_field_missing customerData"
  shows "trace (fst (handleAddCustomerSubmit customerData g u s)) = trace s \<and>
         remote_calls (fst (handleAddCustomerSubmit customerData g u s)) = remote_calls s \<and>
         remote_calls (addCustomerForm_submit customerData g u s) = remote_calls s \<and>
         (gapiInited s \<and> gapi_client_sheets s \<longrightarrow>
            document (fst (handleAddCustomerSubmit customerData g u s)) ''errorDisplay'' =
              map_option
                (\<lambda>e. e\<lparr>innerHTML := banner ''Mohon lengkapi semua field yang wajib diisi'',
                        display := ''block''\<rparr>)
                (document s ''errorDisplay'')) \<and>
         string_includes (banner ''Mohon lengkapi semua field yang wajib diisi'')
           ''Mohon lengkapi semua field yang wajib diisi'' \<and>
         (\<not> gapiInited s \<or> gapi_client_defined s \<and> \<not> gapi_client_sheets s \<longrightarrow>
            document (fst (handleAddCustomerSubmit customerData g u s)) ''errorDisplay'' =
              map_option
                (\<lambda>e. e\<lparr>innerHTML := banner ''Google API client not initialized. Please try again.'',
                        display := ''block''\<rparr>)
                (document s ''errorDisplay'')) \<and>
         (gapiInited s \<and> \<not> gapi_client_defined s \<longrightarrow>
            handleAddCustomerSubmit customerData g u s = (s, Some (undefined_property ''sheets'')))"
proof -
  let ?s' = "fst (handleAddCustomerSubmit customerData g u s)"
  have t: "trace ?s' = trace s"
    by (simp add: handleAddCustomerSubmit_missing [OF assms] finally_errorDisplay)
  then have r: "remote_calls ?s' = remote_calls s"
    by (simp add: remote_calls_def)
  have d: "remote_calls (addCustomerForm_submit customerData g u s) = remote_calls ?s'"
    by (simp add: addCustomerForm_submit_def split: prod.split option.split)
  have ready: "gapiInited s \<and> gapi_client_sheets s \<longrightarrow>
      document ?s' ''errorDisplay'' =
        map_option
          (\<lambda>e. e\<lparr>innerHTML := banner ''Mohon lengkapi semua field yang wajib diisi'',
                  display := ''block''\<rparr>)
          (document s ''errorDisplay'')"
    using sheets_defined [of s]
    by (auto simp add: handleAddCustomerSubmit_missing [OF assms] finally_errorDisplay
        showUserError_document)
  have not_ready: "\<not> gapiInited s \<or> gapi_client_defined s \<and> \<not> gapi_client_sheets s \<longrightarrow>
      document ?s' ''errorDisplay'' =
        map_option
          (\<lambda>e. e\<lparr>innerHTML := banner ''Google API client not initialized. Please try again.'',
                  display := ''block''\<rparr>)
          (document s ''errorDisplay'')"
    by (auto simp add: handleAddCustomerSubmit_missing [OF assms] showUserError_document)
  have raised: "gapiInited s \<and> \<not> gapi_client_defined s \<longrightarrow>
      handleAddCustomerSubmit customerData g u s = (s, Some (undefined_property ''sheets''))"
    by (simp add: handleAddCustomerSubmit_missing [OF assms])
  from t r d ready not_ready raised banner_shows show ?thesis
    by simp
qed

theorem add_with_missing_field_short_circuits_witness:
  "required_field_missing [''nama'' \<mapsto> ''Budi'', ''no_telepon'' \<mapsto> ''0812'', ''alamat'' \<mapsto> [],
                           ''odp_terdekat'' \<mapsto> ''ODP-7'', ''nama_sales'' \<mapsto> ''Sari''] \<and>
   gapiInited ready_page \<and> gapi_client_sheets ready_page \<and>
   remote_calls
     (addCustomerForm_submit
        [''nama'' \<mapsto> ''Budi'', ''no_telepon'' \<mapsto> ''0812'', ''alamat'' \<mapsto> [],
         ''odp_terdekat'' \<mapsto> ''ODP-7'', ''nama_sales'' \<mapsto> ''Sari'']
        (Resolves None) (Resolves ()) ready_page) = [] \<and>
   document
     (fst (handleAddCustomerSubmit
        [''nama'' \<mapsto> ''Budi'', ''no_telepon'' \<mapsto> ''0812'', ''alamat'' \<mapsto> [],
         ''odp_terdekat'' \<mapsto> ''ODP-7'', ''nama_sales'' \<mapsto> ''Sari'']
        (Resolves None) (Resolves ()) ready_page)) ''errorDisplay'' =
     Some (blank\<lparr>innerHTML := banner ''Mohon lengkapi semua field yang wajib diisi'',
                  display := ''block''\<rparr>)"
proof -
  have missing: "required_field_missing [''nama'' \<mapsto> ''Budi'', ''no_telepon'' \<mapsto> ''0812'', ''alamat'' \<mapsto> [],
                           ''odp_terdekat'' \<mapsto> ''ODP-7'', ''nama_sales'' \<mapsto> ''Sari'']"
    by (simp add: required_field_missing_def truthy_def)
  from add_with_missing_field_short_circuits [OF missing, of "Resolves None" "Resolves ()" ready_page] missing
  show ?thesis by (simp add: ready_page_fields)
qed

section \<open>C7: the row an edit writes\<close>



text \<open>The decimal numeral of a row index is read back by \<open>parseInt\<close> as that index.\<close>

lemma digit_char_cases:
  assumes "d < 10"
  shows "digit_char d \<in> set ''0123456789'' \<and> digit_value 10 (digit_char d) = Some d"
proof -
  from assms
  have "d = 0 \<or> d = 1 \<or> d = 2 \<or> d = 3 \<or> d = 4 \<or> d = 5 \<or> d = 6 \<or> d = 7 \<or> d = 8 \<or> d = 9"
    by arith
  then show ?thesis
    by (elim disjE) (simp_all add: digit_char_def digit_value_def)
qed

lemma show_nat_digits: "set (show_nat n) \<subseteq> set ''0123456789''"
proof (induction n rule: show_nat.induct)
  case (1 n)
  show ?case
  proof (cases "n < 10")
    case True
    then show ?thesis
      using digit_char_cases [of n] by (subst show_nat.simps) simp
  next
    case False
    with "1" have "set (show_nat (n div 10)) \<subseteq> set ''0123456789''"
      by simp
    moreover have "digit_char (n mod 10) \<in> set ''0123456789''"
      using digit_char_cases [of "n mod 10"] by simp
    ultimately show ?thesis
      using False by (subst show_nat.simps) simp
  qed
qed

lemma show_nat_nonempty: "show_nat n \<noteq> []"
  by (subst show_nat.simps) simp

lemma decimal_digit_value:
  "c \<in> set ''0123456789'' \<Longrightarrow> digit_value 10 c \<noteq> None"
  by (auto simp add: digit_value_def)

lemma parse_digits_append:
  "\<forall>c \<in> set xs. digit_value radix c \<noteq> None \<Longrightarrow>
   parse_digits radix (xs @ ys) acc = parse_digits radix ys (parse_digits radix xs acc)"
  by (induction xs arbitrary: acc) auto

lemma parse_digits_show_nat: "parse_digits 10 (show_nat n) None = Some n"
proof (induction n rule: show_nat.induct)
  case (1 n)
  show ?case
  proof (cases "n < 10")
    case True
    then show ?thesis
      using digit_char_cases [of n] by (subst show_nat.simps) simp
  next
    case False
    have digits: "\<forall>c \<in> set (show_nat (n div 10)). digit_value 10 c \<noteq> None"
      using show_nat_digits [of "n div 10"] decimal_digit_value by blast
    have last: "digit_value 10 (digit_char (n mod 10)) = Some (n mod 10)"
      using digit_char_cases [of "n mod 10"] by simp
    from False "1" have "parse_digits 10 (show_nat (n div 10)) None = Some (n div 10)"
      by simp
    with False show ?thesis
      by (subst show_nat.simps) (simp add: parse_digits_append [OF digits] last)
  qed
qed

lemma white_space_heads:
  "w \<in> set white_space \<Longrightarrow> w \<noteq> [] \<and> hd w \<notin> set ''0123456789''"
  by (auto simp add: white_space_def)

lemma digit_no_white_space:
  assumes "c \<in> set ''0123456789''"
  shows "leading_white_space (c # cs) = 0"
proof -
  have "\<not> (\<exists>w. w \<in> set white_space \<and> take (length w) (c # cs) = w)"
  proof
    assume "\<exists>w. w \<in> set white_space \<and> take (length w) (c # cs) = w"
    then obtain w where w: "w \<in> set white_space" "take (length w) (c # cs) = w"
      by blast
    from white_space_heads [OF w(1)] obtain a as where a: "w = a # as" "a \<notin> set ''0123456789''"
      by (cases w) auto
    from w(2) have "a = c"
      by (simp add: a(1))
    with a(2) assms show False
      by blast
  qed
  then have "find (\<lambda>w. take (length w) (c # cs) = w) white_space = None"
    unfolding find_None_iff .
  then show ?thesis
    by (simp add: leading_white_space_def)
qed

lemma parseInt_show_nat:
  assumes "int n \<le> MAX_SAFE_INTEGER"
  shows "parseInt (show_nat n) = Integer (int n)"
proof -
  obtain c cs where ds: "show_nat n = c # cs"
    using show_nat_nonempty [of n] by (cases "show_nat n") auto
  have c: "c \<in> set ''0123456789''"
    using show_nat_digits [of n] ds by auto
  then have plain: "c \<noteq> CHR ''+''" "c \<noteq> CHR ''-''"
    by auto
  have no_space: "skip_white_space (show_nat n) = show_nat n"
    using digit_no_white_space [OF c] by (subst skip_white_space.simps) (simp add: ds)
  have no_minus: "(case show_nat n of c # _ \<Rightarrow> c = CHR ''-'' | [] \<Rightarrow> False) = False"
    using plain(2) by (simp add: ds)
  have no_sign: "(case show_nat n of c # cs \<Rightarrow> if c = CHR ''+'' \<or> c = CHR ''-'' then cs else show_nat n
                  | [] \<Rightarrow> show_nat n) = show_nat n"
    using plain by (simp add: ds)
  have no_hex: "(take 2 (show_nat n) = ''0x'' \<or> take 2 (show_nat n) = ''0X'') = False"
  proof (cases cs)
    case Nil
    then show ?thesis by (simp add: ds)
  next
    case (Cons c' cs')
    then have "c' \<in> set ''0123456789''"
      using show_nat_digits [of n] ds by auto
    then have "c' \<noteq> CHR ''x''" "c' \<noteq> CHR ''X''"
      by auto
    with Cons show ?thesis by (simp add: ds)
  qed
  have "0 \<le> MAX_SAFE_INTEGER"
    by (simp add: MAX_SAFE_INTEGER_def)
  with assms show ?thesis
    unfolding parseInt_def Let_def no_space no_minus no_sign no_hex
    by (simp add: parse_digits_show_nat to_number_def)
qed



text \<open>Without \<open>gapi.client.sheets\<close> the call of line 452 raises and nothing is sent.\<close>

lemma edit_without_sheets:
  assumes "\<not> gapi_client_sheets s" and "editForm_submit r s = Some s'"
  shows "remote_calls s' = remote_calls s"
  using assms
  by (auto simp add: editForm_submit_def editForm_catch_def Let_def split: option.splits)



section \<open>C8: a transition without its containers\<close>

text \<open>
  C8: when one of the three containers is missing, \<open>updateSigninStatus\<close> only logs: the
  entry that announces the transition and the diagnostic.  The DOM, the API client's token
  and both storages are as before.
\<close>

theorem missing_container_is_noop:
  assumes "\<not> required_elements_present s"
  shows "updateSigninStatus isSignedIn s =
           s\<lparr>trace := trace s @ [Console ''info'' (''Updating sign-in status: '' @ show_bool isSignedIn),
                                   Console ''info'' ''Required DOM elements not found'']\<rparr> \<and>
         document (updateSigninStatus isSignedIn s) = document s \<and>
         gapi_client_token (updateSigninStatus isSignedIn s) = gapi_client_token s \<and>
         sessionStorage (updateSigninStatus isSignedIn s) = sessionStorage s \<and>
         localStorage (updateSigninStatus isSignedIn s) = localStorage s"
  by (simp add: updateSigninStatus_missing [OF assms])

theorem missing_container_is_noop_witness:
  "\<not> required_elements_present page_without_signout_button \<and>
   updateSigninStatus True page_without_signout_button =
     page_without_signout_button\<lparr>trace := [Console ''info'' ''Updating sign-in status: true'',
                                            Console ''info'' ''Required DOM elements not found'']\<rparr> \<and>
   gapi_client_token (updateSigninStatus True page_without_signout_button) = None \<and>
   sessionStorage (updateSigninStatus True page_without_signout_button) ''isLoggedIn'' = None"
proof -
  have missing: "\<not> required_elements_present page_without_signout_button"
    by (rule example_page_elements)
  have fields: "trace page_without_signout_button = []"
    "gapi_client_token page_without_signout_button = None"
    "sessionStorage page_without_signout_button ''isLoggedIn'' = None"
    by (simp_all add: page_without_signout_button_def example_page_def)
  from missing_container_is_noop [OF missing, of True] missing fields
  show ?thesis by (simp add: show_bool_def)
qed

section \<open>C9: no button before both libraries are ready\<close>

lemma silent_basic:
  "silent (emit (Console l m))" "silent (setElement i el)" "silent (showUserError m)"
  "silent (handleError err c)" "silent (setTimeout cb d)" "silent (updateSigninStatus b)"
  by (simp_all add: silent_def)

lemma silent_safeRefreshData: "silent safeRefreshData"
  by (simp add: silent_def safeRefreshData_def Let_def)

lemma silent_closeEditModal: "silent closeEditModal"
  by (simp add: silent_def closeEditModal_def getElementById_def Let_def split: option.split)

lemma silent_catch: "silent (initializeGapiClient_catch err)"
  by (simp add: silent_def initializeGapiClient_catch_def Let_def)

lemma silent_begin: "silent (\<lambda>s. fst (initializeGapiClient_begin s))"
  using silent_catch by (simp add: silent_def initializeGapiClient_begin_def Let_def)

lemma silent_gapiLoaded: "silent gapiLoaded"
  by (simp add: silent_def gapiLoaded_def)

lemma silent_handleCredentialResponse: "silent (handleCredentialResponse response)"
  by (simp add: silent_def handleCredentialResponse_def Let_def)

lemma silent_handleSignoutClick: "silent handleSignoutClick"
  by (simp add: silent_def handleSignoutClick_def Let_def)

lemma silent_DOMContentLoaded: "silent DOMContentLoaded"
  by (simp add: silent_def DOMContentLoaded_def Let_def)

lemma silent_integration_init_rejected: "silent (integration_init_rejected err)"
  by (simp add: silent_def integration_init_rejected_def)

lemma silent_editForm_catch: "silent (editForm_catch err)"
  by (simp add: silent_def editForm_catch_def)

lemma silent_deleteCustomerRow_catch: "silent (deleteCustomerRow_catch index err)"
  by (simp add: silent_def deleteCustomerRow_catch_def)

lemma silent_after:
  assumes "silent f"
  shows "gapiInited (f s) = gapiInited s" "gisLoadedFlag (f s) = gisLoadedFlag s"
    "renderButton_calls (f s) = renderButton_calls s"
  using assms by (simp_all add: silent_def)

lemma render_gated_cong:
  assumes "gapiInited s' = gapiInited s" and "gisLoadedFlag s' = gisLoadedFlag s"
    and "renderButton_calls s' = renderButton_calls s"
  shows "render_gated s' = render_gated s"
  using assms by (simp add: render_gated_def)

lemma silent_editForm_update: "silent (editForm_update n row r)"
  using silent_after [OF silent_editForm_catch] silent_after [OF silent_safeRefreshData]
    silent_after [OF silent_closeEditModal]
  by (simp add: silent_def editForm_update_def Let_def split: outcome.split)

lemma silent_deleteCustomerRow_body: "silent (deleteCustomerRow_body index sheetRow start_row end_row r)"
  using silent_after [OF silent_deleteCustomerRow_catch] silent_after [OF silent_safeRefreshData]
  by (simp add: silent_def deleteCustomerRow_body_def Let_def split: outcome.split)

lemma render_gated_editForm_submit:
  assumes "editForm_submit r s = Some s'"
  shows "render_gated s' = render_gated s"
proof (rule render_gated_cong)
  note quiet = silent_after [OF silent_editForm_catch] silent_after [OF silent_editForm_update]
  from assms show "gapiInited s' = gapiInited s"
    by (auto simp add: editForm_submit_def Let_def quiet split: option.splits if_splits)
  from assms show "gisLoadedFlag s' = gisLoadedFlag s"
    by (auto simp add: editForm_submit_def Let_def quiet split: option.splits if_splits)
  from assms show "renderButton_calls s' = renderButton_calls s"
    by (auto simp add: editForm_submit_def Let_def quiet split: option.splits if_splits)
qed

lemma render_gated_deleteCustomerRow:
  assumes "deleteCustomerRow rowIndex r s = Some s'"
  shows "render_gated s' = render_gated s"
proof (rule render_gated_cong)
  note quiet = silent_after [OF silent_deleteCustomerRow_body]
  from assms show "gapiInited s' = gapiInited s"
    by (auto simp add: deleteCustomerRow_def Let_def quiet split: option.splits number.splits)
  from assms show "gisLoadedFlag s' = gisLoadedFlag s"
    by (auto simp add: deleteCustomerRow_def Let_def quiet split: option.splits number.splits)
  from assms show "renderButton_calls s' = renderButton_calls s"
    by (auto simp add: deleteCustomerRow_def Let_def quiet split: option.splits number.splits)
qed

lemma silent_addCustomer_finally: "silent (\<lambda>s. fst (addCustomer_finally s))"
  by (simp add: silent_def addCustomer_finally_def getElementById_def split: option.split)

lemma silent_resetAddCustomerForm: "silent resetAddCustomerForm"
  by (simp add: silent_def resetAddCustomerForm_def getElementById_def split: option.split)

lemma silent_handleAddCustomerSubmit: "silent (\<lambda>s. fst (handleAddCustomerSubmit customerData g u s))"
  using silent_addCustomer_finally silent_resetAddCustomerForm silent_safeRefreshData
  by (simp add: silent_def handleAddCustomerSubmit_def addCustomer_catch_def getElementById_def
      Let_def split: option.split outcome.split)

lemma silent_polling:
  "silent initializeGoogleSheetsIntegration" "silent setupRefreshDataOverride"
  "silent (window_error event_message)"
  using silent_safeRefreshData
  by (simp_all add: silent_def initializeGoogleSheetsIntegration_def setupRefreshDataOverride_def
      window_error_def Let_def split: option.split binding.split)

lemma silent_addCustomerForm_submit: "silent (addCustomerForm_submit customerData g u)"
  using silent_handleAddCustomerSubmit [of customerData g u]
  by (simp add: silent_def addCustomerForm_submit_def unhandledrejection_def split: prod.split option.split)
    (metis fst_conv)

lemma render_gated_silent: "silent f \<Longrightarrow> render_gated s \<Longrightarrow> render_gated (f s)"
  by (simp add: render_gated_def silent_def)

lemma render_gated_maybeRender:
  "render_gated s \<Longrightarrow> render_gated (maybeRenderSignInButton s)"
  by (simp add: render_gated_def renders_maybeRender)

lemma render_gated_resume: "render_gated s \<Longrightarrow> render_gated (initializeGapiClient_resume r s)"
proof (cases r)
  case (Resolves u)
  assume "render_gated s"
  then have "render_gated (emit (Console ''info'' ''GAPI client initialized successfully'') (s\<lparr>gapiInited := True\<rparr>))"
    by (simp add: render_gated_def)
  then show ?thesis
    using Resolves by (simp add: initializeGapiClient_resume_def render_gated_maybeRender)
next
  case (Rejects err)
  assume "render_gated s"
  then show ?thesis
    using Rejects by (simp add: initializeGapiClient_resume_def render_gated_silent [OF silent_catch])
qed

lemma render_gated_gisLoaded: "render_gated s \<Longrightarrow> render_gated (gisLoaded s)"
proof (cases "CLIENT_ID (CONFIG s) = []")
  case True
  assume "render_gated s"
  then show ?thesis
    using True by (simp add: gisLoaded_def render_gated_def)
next
  case False
  assume "render_gated s"
  then have "render_gated (emit (Console ''info'' ''GIS initialized successfully'')
      ((emit (IdInitialize (CLIENT_ID (CONFIG s)))
         (emit (Console ''info'' ''gisLoaded: Google Identity Services loaded.'')
           (emit (Console ''log'' ''gisLoaded called'') s)))\<lparr>gisLoadedFlag := True\<rparr>))"
    by (simp add: render_gated_def)
  then show ?thesis
    using False by (simp add: gisLoaded_def render_gated_maybeRender)
qed

lemma reachable_render_gated: "reachable s \<Longrightarrow> render_gated s"
proof (induction rule: reachable.induct)
  case (script_start s)
  then show ?case by (simp add: script_loaded_def render_gated_def renderButton_calls_def)
next
  case (environment s d ss ls lib tok gid gsi)
  then show ?case by (simp add: render_gated_def)
next
  case (timer_expired s cb ts)
  then show ?case by (simp add: render_gated_def)
next
  case (gapi_loaded s)
  then show ?case by (simp add: render_gated_silent [OF silent_gapiLoaded])
next
  case (init_called s)
  then show ?case by (simp add: render_gated_silent [OF silent_begin])
next
  case (init_resumed s r)
  then show ?case by (simp add: render_gated_resume)
next
  case (gis_loaded s)
  then show ?case by (simp add: render_gated_gisLoaded)
next
  case (credential_received s response)
  then show ?case by (simp add: render_gated_silent [OF silent_handleCredentialResponse])
next
  case (signout_clicked s)
  then show ?case by (simp add: render_gated_silent [OF silent_handleSignoutClick])
next
  case (dom_content_loaded s)
  then show ?case by (simp add: render_gated_silent [OF silent_DOMContentLoaded])
next
  case (integration_rejected s err)
  then show ?case by (simp add: render_gated_silent [OF silent_integration_init_rejected])
next
  case (refresh_called s)
  then show ?case by (simp add: render_gated_silent [OF silent_safeRefreshData])
next
  case (modal_closed s)
  then show ?case by (simp add: render_gated_silent [OF silent_closeEditModal])
next
  case (edit_submitted s r s')
  then show ?case by (simp add: render_gated_editForm_submit)
next
  case (edit_submitted_beyond s r row n)
  then show ?case by (simp add: render_gated_silent [OF silent_editForm_update])
next
  case (row_deleted s rowIndex r s')
  then show ?case by (simp add: render_gated_deleteCustomerRow)
next
  case (row_deleted_beyond s rowIndex r index sheetRow start_row end_row)
  then show ?case by (simp add: render_gated_silent [OF silent_deleteCustomerRow_body])
next
  case (customer_submitted s customerData g u)
  then show ?case by (simp add: render_gated_silent [OF silent_addCustomerForm_submit])
next
  case (form_reset s)
  then show ?case by (simp add: render_gated_silent [OF silent_resetAddCustomerForm])
next
  case (integration_polled s)
  then show ?case by (simp add: render_gated_silent [OF silent_polling(1)])
next
  case (override_polled s)
  then show ?case by (simp add: render_gated_silent [OF silent_polling(2)])
next
  case (error_caught s event_message)
  then show ?case by (simp add: render_gated_silent [OF silent_polling(3)])
qed

text \<open>
  C9: in every reachable state in which the two readiness flags are not both true,
  \<open>renderButton\<close> has never been called, and the gating check called in that state does not
  call it either.
\<close>

theorem render_only_when_both_ready:
  assumes "reachable s" and "\<not> (gapiInited s \<and> gisLoadedFlag s)"
  shows "renderButton_calls s = 0 \<and> renderButton_calls (maybeRenderSignInButton s) = 0"
proof -
  from assms(1) have "render_gated s" by (rule reachable_render_gated)
  with assms(2) have "renderButton_calls s = 0"
    by (auto simp add: render_gated_def)
  with assms(2) show ?thesis
    by (auto simp add: renders_maybeRender)
qed

theorem render_only_when_both_ready_witness:
  "reachable (gisLoaded example_page) \<and>
   gisLoadedFlag (gisLoaded example_page) \<and> \<not> gapiInited (gisLoaded example_page) \<and>
   renderButton_calls (gisLoaded example_page) = 0 \<and>
   renderButton_calls (maybeRenderSignInButton (gisLoaded example_page)) = 0"
proof -
  have r: "reachable (gisLoaded example_page)"
    by (intro reachable.gis_loaded reachable.script_start example_page_loaded)
  have f: "gisLoadedFlag (gisLoaded example_page)" "\<not> gapiInited (gisLoaded example_page)"
    by (simp_all add: gisLoaded_def example_page_def example_config_def)
  from render_only_when_both_ready [OF r] f r show ?thesis by simp
qed

section \<open>C10: the gating check signs out\<close>

text \<open>
  C10 as stated fails.  The signed-out transition starts with its own guard (lines 174 to
  177): it returns when one of its three containers is missing.  On a page that has the
  \<open>g_id_onload\<close> element but no sign-out button, with both readiness flags true, the gating
  check renders the button and nothing else happens: the API client's token is not set to
  the empty string and the main content is not hidden.
\<close>

theorem gating_check_without_signout_button_counterexample:
  "gapiInited login_only_page \<and> gisLoadedFlag login_only_page \<and>
   document login_only_page ''g_id_onload'' \<noteq> None \<and>
   renderButton_calls (maybeRenderSignInButton login_only_page) = 1 \<and>
   gapi_client_token (maybeRenderSignInButton login_only_page) = None \<and>
   gapi_client_token (maybeRenderSignInButton login_only_page) \<noteq> Some (TokenString []) \<and>
   display_of (maybeRenderSignInButton login_only_page) ''main-content'' = Some [] \<and>
   display_of (maybeRenderSignInButton login_only_page) ''main-content'' \<noteq> Some ''none''"
proof -
  let ?s1 = "emit (RenderButton ''g_id_onload'')
               (console_log ''signInButtonContainer found''
                 (console_log ''gapiInited and gisLoadedFlag are true, rendering button''
                   (console_log ''maybeRenderSignInButton called'' login_only_page)))"
  have run: "maybeRenderSignInButton login_only_page = updateSigninStatus False ?s1"
    using login_only_page_fields(1,2,3)
    by (auto simp add: maybeRenderSignInButton_def getElementById_def Let_def)
  have "\<not> required_elements_present ?s1"
    using example_page_elements(5) by simp
  from updateSigninStatus_missing [OF this]
  have "gapi_client_token (maybeRenderSignInButton login_only_page) = None"
    "display_of (maybeRenderSignInButton login_only_page) ''main-content'' = Some []"
    by (simp_all add: run display_of_def login_only_page_fields [unfolded display_of_def])
  moreover have "renderButton_calls (maybeRenderSignInButton login_only_page) = 1"
    using login_only_page_fields(1,2,3)
    by (simp add: renders_maybeRender getElementById_def login_only_page_fields(4))
  ultimately show ?thesis
    by (simp add: login_only_page_fields)
qed

text \<open>
  C10, amended: with both readiness flags true and the \<open>g_id_onload\<close> element present, the
  gating check renders the button and its next action is \<open>updateSigninStatus(false)\<close>.  When
  the three view containers exist, that transition hides the main content and shows the
  login panel, and it does not touch the session storage; when moreover the API client
  library is loaded, it sets the API client's token to the empty string.  When a container
  is missing, the transition leaves the token and the DOM as they are.  The example is a
  page that was restored to the signed-in view from the stored flag: the main content is
  hidden again while the flag still reads \<open>"true"\<close>.
\<close>

theorem gating_check_signs_out:
  assumes "gapiInited s" and "gisLoadedFlag s" and "document s ''g_id_onload'' \<noteq> None"
  shows "maybeRenderSignInButton s =
           updateSigninStatus False
             (emit (RenderButton ''g_id_onload'')
               (console_log ''signInButtonContainer found''
                 (console_log ''gapiInited and gisLoadedFlag are true, rendering button''
                   (console_log ''maybeRenderSignInButton called'' s)))) \<and>
         renderButton_calls (maybeRenderSignInButton s) = renderButton_calls s + 1 \<and>
         (required_elements_present s \<longrightarrow>
            display_of (maybeRenderSignInButton s) ''main-content'' = Some ''none'' \<and>
            display_of (maybeRenderSignInButton s) ''sign-in-container'' = Some ''block'' \<and>
            sessionStorage (maybeRenderSignInButton s) = sessionStorage s) \<and>
         (required_elements_present s \<and> gapi_client_defined s \<longrightarrow>
            gapi_client_token (maybeRenderSignInButton s) = Some (TokenString [])) \<and>
         (\<not> required_elements_present s \<longrightarrow>
            gapi_client_token (maybeRenderSignInButton s) = gapi_client_token s \<and>
            document (maybeRenderSignInButton s) = document s)"
proof -
  let ?s1 = "emit (RenderButton ''g_id_onload'')
               (console_log ''signInButtonContainer found''
                 (console_log ''gapiInited and gisLoadedFlag are true, rendering button''
                   (console_log ''maybeRenderSignInButton called'' s)))"
  have run: "maybeRenderSignInButton s = updateSigninStatus False ?s1"
    using assms by (auto simp add: maybeRenderSignInButton_def getElementById_def Let_def)
  have calls: "renderButton_calls (maybeRenderSignInButton s) = renderButton_calls s + 1"
    using assms by (simp add: renders_maybeRender getElementById_def)
  have present: "required_elements_present ?s1 = required_elements_present s"
    by simp
  have loaded: "gapi_client_defined ?s1 = gapi_client_defined s"
    by simp
  have view: "display_of (maybeRenderSignInButton s) ''main-content'' = Some ''none'' \<and>
      display_of (maybeRenderSignInButton s) ''sign-in-container'' = Some ''block'' \<and>
      sessionStorage (maybeRenderSignInButton s) = sessionStorage s"
    if "required_elements_present s"
    using updateSigninStatus_view(4,5,7) [of ?s1] that by (simp add: run)
  have token: "gapi_client_token (maybeRenderSignInButton s) = Some (TokenString [])"
    if "required_elements_present s" "gapi_client_defined s"
    using updateSigninStatus_out [of ?s1] that by (simp add: run)
  have missing: "gapi_client_token (maybeRenderSignInButton s) = gapi_client_token s \<and>
      document (maybeRenderSignInButton s) = document s"
    if "\<not> required_elements_present s"
    using updateSigninStatus_missing [of ?s1 False] that by (simp add: run)
  from run calls view token missing show ?thesis
    by blast
qed

theorem gating_check_signs_out_witness:
  "gapiInited restored_ready_page \<and> gisLoadedFlag restored_ready_page \<and>
   document restored_ready_page ''g_id_onload'' \<noteq> None \<and>
   required_elements_present restored_ready_page \<and>
   gapi_client_defined restored_ready_page \<and>
   display_of restored_ready_page ''main-content'' = Some ''block'' \<and>
   sessionStorage restored_ready_page ''isLoggedIn'' = Some ''true'' \<and>
   gapi_client_token (maybeRenderSignInButton restored_ready_page) = Some (TokenString []) \<and>
   display_of (maybeRenderSignInButton restored_ready_page) ''main-content'' = Some ''none'' \<and>
   sessionStorage (maybeRenderSignInButton restored_ready_page) ''isLoggedIn'' = Some ''true''"
proof -
  from gating_check_signs_out [OF restored_ready_page_fields(1,2,3)] restored_ready_page_fields(4,5)
  have "gapi_client_token (maybeRenderSignInButton restored_ready_page) = Some (TokenString []) \<and>
        display_of (maybeRenderSignInButton restored_ready_page) ''main-content'' = Some ''none'' \<and>
        sessionStorage (maybeRenderSignInButton restored_ready_page) = sessionStorage restored_ready_page"
    by blast
  then show ?thesis
    by (simp add: restored_ready_page_fields)
qed

end
